theory Spec2Isabelle
  imports Main "HOL-Library.Word" "HOL-Library.Signed_Division"
begin

unbundle bit_operations_syntax

section \<open>The WASAPI driver of oto: data model\<close>

text \<open>
  The development embeds \<^verbatim>\<open>driver_wasapi_windows.go\<close>. Go's fixed-width integers are
  words: \<^verbatim>\<open>uint16\<close> and \<^verbatim>\<open>uint32\<close> are 16- and 32-bit words with unsigned
  comparison, and \<^verbatim>\<open>int\<close> is the 64-bit two's-complement integer of the 64-bit Windows
  targets, read through \<open>sint\<close> wherever the source compares or divides it.
  Pointers and handles are natural numbers; a nil pointer is \<open>None\<close>.
\<close>

type_synonym uint16 = "16 word"
type_synonym uint32 = "32 word"
type_synonym go_int = "64 word"
type_synonym guid = "128 word"
type_synonym pointer = nat

text \<open>
  Go's \<^verbatim>\<open>error\<close> values. A platform call fails with an error of its own, identified
  here by a code; the two \<^verbatim>\<open>fmt.Errorf\<close> values of the file are constructors of their
  own (the second carries the value that \<^verbatim>\<open>%d\<close> prints). A nil error is \<open>None\<close>.
\<close>

datatype error =
    PlatformError nat
  | ErrClosestFormat
  | ErrWaitFailed uint32

subsection \<open>The last-fatal-error cell\<close>

text \<open>
  Modelled from the spec: the type \<^verbatim>\<open>atomicError\<close> with its methods \<^verbatim>\<open>TryStore\<close> and
  \<^verbatim>\<open>Load\<close> is declared outside the file; the spec describes it as an atomic
  optional-error cell with a compare-and-set-if-empty update (first error sticks, later
  writes are ignored) that readers poll. The zero value of the cell is empty.
\<close>

type_synonym atomicError = "error option"

definition emptyError :: atomicError where
  "emptyError = None"

definition TryStore :: "error \<Rightarrow> atomicError \<Rightarrow> atomicError" where
  "TryStore e cell = (case cell of None \<Rightarrow> Some e | Some first \<Rightarrow> Some first)"

definition Load :: "atomicError \<Rightarrow> error option" where
  "Load cell = cell"

subsection \<open>Constants of the API bindings\<close>

text \<open>
  The constants \<^verbatim>\<open>_WAVE_FORMAT_EXTENSIBLE\<close>, \<^verbatim>\<open>_SPEAKER_FRONT_LEFT\<close>,
  \<^verbatim>\<open>_SPEAKER_FRONT_RIGHT\<close>, \<^verbatim>\<open>_SPEAKER_FRONT_CENTER\<close> and
  \<^verbatim>\<open>_KSDATAFORMAT_SUBTYPE_IEEE_FLOAT\<close> are declared in the bindings file of the package,
  outside this file. They are a parameter of every definition that uses them, so each result
  holds whatever their values are.
\<close>

record api_consts =
  WAVE_FORMAT_EXTENSIBLE :: uint16
  SPEAKER_FRONT_LEFT :: uint32
  SPEAKER_FRONT_RIGHT :: uint32
  SPEAKER_FRONT_CENTER :: uint32
  KSDATAFORMAT_SUBTYPE_IEEE_FLOAT :: guid

text \<open>\<^verbatim>\<open>windows.WAIT_OBJECT_0\<close> of golang.org/x/sys/windows.\<close>

definition WAIT_OBJECT_0 :: uint32 where
  "WAIT_OBJECT_0 = 0"

subsection \<open>Format descriptor, slices and the driver context\<close>

record WAVEFORMATEXTENSIBLE =
  wFormatTag :: uint16
  nChannels :: uint16
  nSamplesPerSec :: uint32
  nAvgBytesPerSec :: uint32
  nBlockAlign :: uint16
  wBitsPerSample :: uint16
  cbSize :: uint16
  Samples :: uint16
  dwChannelMask :: uint32
  SubFormat :: guid

text \<open>
  A \<^verbatim>\<open>[]float32\<close> is its slice header: the logical length and the capacity of the backing
  array. The samples themselves are not represented. The nil slice has length and
  capacity 0.
\<close>

record slice =
  slice_len :: nat
  slice_cap :: nat

definition nilSlice :: slice where
  "nilSlice = \<lparr>slice_len = 0, slice_cap = 0\<rparr>"

text \<open>
  \<^verbatim>\<open>make([]float32, n)\<close> gives a slice of length and capacity \<open>n\<close> and panics for a
  negative \<open>n\<close>; \<^verbatim>\<open>s[:n]\<close> keeps the backing array and panics unless
  \<open>0 \<le> n \<le> cap(s)\<close>. \<open>None\<close> is the panic. Exhausted memory is outside the model.
\<close>

definition makeSlice :: "go_int \<Rightarrow> slice option" where
  "makeSlice n =
     (if sint n < 0 then None
      else Some \<lparr>slice_len = nat (sint n), slice_cap = nat (sint n)\<rparr>)"

definition reslice :: "slice \<Rightarrow> go_int \<Rightarrow> slice option" where
  "reslice s n =
     (if sint n < 0 \<or> int (slice_cap s) < sint n then None
      else Some (s\<lparr>slice_len := nat (sint n)\<rparr>))"

text \<open>
  The struct \<^verbatim>\<open>wasapiContext\<close>. The mutex \<^verbatim>\<open>m\<close> is left out: every operation that
  takes it releases it by \<^verbatim>\<open>defer\<close> on each of its exits, and the operations are run
  here one at a time. The worker \<^verbatim>\<open>comThread\<close> is its job channel.
\<close>

type_synonym comThread = pointer

record wasapiContext =
  sampleRate :: go_int
  channelCount :: go_int
  mux :: "pointer option"
  comThread :: "comThread option"
  err :: atomicError
  sampleReadyEvent :: pointer
  client :: "pointer option"
  mixFormat :: "WAVEFORMATEXTENSIBLE option"
  bufferFrames :: uint32
  renderClient :: "pointer option"
  buf :: slice

subsection \<open>Calls to the platform\<close>

text \<open>
  Every call that leaves the driver is recorded, in order, in a trace: the calls to COM and
  to the audio client, the pull from the mixing engine, the copy into the device buffer,
  the allocation of a scratch buffer and the start of the render thread. Calls carry the
  arguments that vary; constant flags are not repeated.
\<close>

datatype event =
    CoInitializeEx
  | CoUninitialize
  | CoCreateInstance
  | GetDefaultAudioEndPoint
  | EnumeratorRelease
  | DeviceRelease
  | Activate
  | SetClientProperties
  | IsFormatSupported WAVEFORMATEXTENSIBLE
  | Initialize WAVEFORMATEXTENSIBLE
  | GetBufferSize
  | GetService
  | CreateEventEx
  | SetEventHandle pointer
  | Start
  | Stop
  | GoRenderThread
  | WaitForSingleObject pointer
  | GetCurrentPadding
  | GetBuffer uint32
  | MakeSlice nat
  | ReadFloat32s nat
  | CopyToDevice pointer nat
  | ReleaseBuffer uint32 uint32

text \<open>
  What the platform answers during setup. A Go result \<^verbatim>\<open>(v, err)\<close> is a sum: the code
  tests \<^verbatim>\<open>err\<close> first and uses \<^verbatim>\<open>v\<close> only when it is nil. The format-support query
  answers with an error, or with the closest format, which is nil when the format is
  supported as it is.
\<close>

record platform =
  coCreateInstance :: "error + pointer"
  getDefaultAudioEndPoint :: "error + pointer"
  activate :: "error + pointer"
  setClientProperties :: "error option"
  isFormatSupported :: "WAVEFORMATEXTENSIBLE \<Rightarrow> error + WAVEFORMATEXTENSIBLE option"
  initialize :: "WAVEFORMATEXTENSIBLE \<Rightarrow> error option"
  getBufferSize :: "error + uint32"
  getService :: "error + pointer"
  createEventEx :: "error + pointer"
  setEventHandle :: "pointer \<Rightarrow> error option"
  start :: "error option"

text \<open>What the platform answers during one fill cycle, and at one wake of the render loop.\<close>

record fill_env =
  getCurrentPadding :: "error + uint32"
  getBuffer :: "uint32 \<Rightarrow> error + pointer"
  releaseBuffer :: "uint32 \<Rightarrow> uint32 \<Rightarrow> error option"

record wake =
  waitForSingleObject :: "error + uint32"
  cycle :: fill_env

section \<open>The apartment worker\<close>

text \<open>
  \<^verbatim>\<open>newCOMThread\<close>, lines 33 to 59. The goroutine and its caller meet on the unbuffered
  channel \<^verbatim>\<open>errCh\<close>: the goroutine's actions on it are listed in order, and the caller's
  \<^verbatim>\<open><-errCh\<close> takes the first of them, the value sent or, from the closed channel, nil.
  The branch of line 40 sends the error and has no \<^verbatim>\<open>return\<close>: control goes on to
  \<^verbatim>\<open>close(errCh)\<close> and into the loop over \<^verbatim>\<open>funcCh\<close>, a channel this file never closes.
\<close>

datatype chan_action = ChanSend error | ChanClose

datatype worker_state = InJobLoop | WorkerReturned

definition comThreadGoroutine :: "error option \<Rightarrow> chan_action list \<times> worker_state \<times> event list" where
  "comThreadGoroutine coInit =
     (let sent = (case coInit of Some e \<Rightarrow> [ChanSend e] | None \<Rightarrow> [])
      in (sent @ [ChanClose], InJobLoop, [CoInitializeEx]))"

definition chanReceive :: "chan_action list \<Rightarrow> error option" where
  "chanReceive acts = (case acts of ChanSend e # _ \<Rightarrow> Some e | _ \<Rightarrow> None)"

definition newCOMThread :: "pointer \<Rightarrow> error option \<Rightarrow> (error + comThread) \<times> worker_state \<times> event list" where
  "newCOMThread funcCh coInit =
     (case comThreadGoroutine coInit of
        (acts, w, tr) \<Rightarrow>
          (case chanReceive acts of
             Some e \<Rightarrow> (Inl e, w, tr)
           | None \<Rightarrow> (Inr funcCh, w, tr)))"

section \<open>Device and format negotiation\<close>

text \<open>Go's \<^verbatim>\<open>/\<close> on \<^verbatim>\<open>int\<close> truncates towards zero.\<close>

definition go_div :: "go_int \<Rightarrow> go_int \<Rightarrow> go_int" where
  "go_div a b = word_of_int (sint a sdiv sint b)"

text \<open>
  The descriptor \<^verbatim>\<open>f\<close> of lines 147 to 167. The \<^verbatim>\<open>switch\<close> has no default case: for
  a channel count other than 1 and 2 the mask keeps the zero value of its declaration.
\<close>

definition candidateFormat :: "api_consts \<Rightarrow> wasapiContext \<Rightarrow> WAVEFORMATEXTENSIBLE" where
  "candidateFormat k c =
     (let bitsPerSample = (32 :: go_int);
          nBlockAlign' = go_div (channelCount c * bitsPerSample) 8;
          channelMask =
            (if channelCount c = 1 then SPEAKER_FRONT_CENTER k
             else if channelCount c = 2 then SPEAKER_FRONT_LEFT k OR SPEAKER_FRONT_RIGHT k
             else 0)
      in \<lparr>wFormatTag = WAVE_FORMAT_EXTENSIBLE k,
          nChannels = ucast (channelCount c),
          nSamplesPerSec = ucast (sampleRate c),
          nAvgBytesPerSec = ucast (sampleRate c * nBlockAlign'),
          nBlockAlign = ucast nBlockAlign',
          wBitsPerSample = ucast bitsPerSample,
          cbSize = 0x16,
          Samples = ucast bitsPerSample,
          dwChannelMask = channelMask,
          SubFormat = KSDATAFORMAT_SUBTYPE_IEEE_FLOAT k\<rparr>)"

text \<open>
  \<^verbatim>\<open>initOnCOMThread\<close>, lines 116 to 230, in four parts, so that the two deferred
  \<^verbatim>\<open>Release\<close> calls run at every exit that follows their registration. Each part
  returns the error (nil is \<open>None\<close>), the context and its calls.
  \<open>initClient\<close> is lines 177 to 229: the last call starts the render thread.
\<close>

definition initClient :: "platform \<Rightarrow> wasapiContext \<Rightarrow> WAVEFORMATEXTENSIBLE \<Rightarrow> error option \<times> wasapiContext \<times> event list" where
  "initClient p c f =
     (case initialize p f of
        Some e \<Rightarrow> (Some e, c, [Initialize f])
      | None \<Rightarrow>
     (case getBufferSize p of
        Inl e \<Rightarrow> (Some e, c, [Initialize f, GetBufferSize])
      | Inr frames \<Rightarrow>
     (let c1 = c\<lparr>bufferFrames := frames\<rparr> in
     (case getService p of
        Inl e \<Rightarrow> (Some e, c1, [Initialize f, GetBufferSize, GetService])
      | Inr rc \<Rightarrow>
     (let c2 = c1\<lparr>renderClient := Some rc\<rparr> in
     (case createEventEx p of
        Inl e \<Rightarrow> (Some e, c2, [Initialize f, GetBufferSize, GetService, CreateEventEx])
      | Inr ev \<Rightarrow>
     (let c3 = c2\<lparr>sampleReadyEvent := ev\<rparr> in
     (case setEventHandle p ev of
        Some e \<Rightarrow>
          (Some e, c3, [Initialize f, GetBufferSize, GetService, CreateEventEx, SetEventHandle ev])
      | None \<Rightarrow>
     (case start p of
        Some e \<Rightarrow>
          (Some e, c3,
           [Initialize f, GetBufferSize, GetService, CreateEventEx, SetEventHandle ev, Start])
      | None \<Rightarrow>
          (None, c3,
           [Initialize f, GetBufferSize, GetService, CreateEventEx, SetEventHandle ev, Start,
            GoRenderThread]))))))))))"

text \<open>Lines 130 to 176, then \<open>initClient\<close>.\<close>

definition initWithDevice :: "api_consts \<Rightarrow> platform \<Rightarrow> wasapiContext \<Rightarrow> error option \<times> wasapiContext \<times> event list" where
  "initWithDevice k p c =
     (case activate p of
        Inl e \<Rightarrow> (Some e, c, [Activate])
      | Inr cl \<Rightarrow>
     (let c1 = c\<lparr>client := Some cl\<rparr> in
     (case setClientProperties p of
        Some e \<Rightarrow> (Some e, c1, [Activate, SetClientProperties])
      | None \<Rightarrow>
     (let f = candidateFormat k c1 in
     (case isFormatSupported p f of
        Inl e \<Rightarrow> (Some e, c1, [Activate, SetClientProperties, IsFormatSupported f])
      | Inr (Some closest) \<Rightarrow>
          (Some ErrClosestFormat, c1, [Activate, SetClientProperties, IsFormatSupported f])
      | Inr None \<Rightarrow>
     (case initClient p (c1\<lparr>mixFormat := Some f\<rparr>) f of
        (r, c', tr) \<Rightarrow>
          (r, c', [Activate, SetClientProperties, IsFormatSupported f] @ tr)))))))"

text \<open>Lines 124 to 128, with \<^verbatim>\<open>defer device.Release()\<close>.\<close>

definition initWithEnumerator :: "api_consts \<Rightarrow> platform \<Rightarrow> wasapiContext \<Rightarrow> error option \<times> wasapiContext \<times> event list" where
  "initWithEnumerator k p c =
     (case getDefaultAudioEndPoint p of
        Inl e \<Rightarrow> (Some e, c, [GetDefaultAudioEndPoint])
      | Inr device \<Rightarrow>
     (case initWithDevice k p c of
        (r, c', tr) \<Rightarrow> (r, c', GetDefaultAudioEndPoint # tr @ [DeviceRelease])))"

text \<open>Lines 117 to 122, with \<^verbatim>\<open>defer enumerator.Release()\<close>.\<close>

definition initOnCOMThread :: "api_consts \<Rightarrow> platform \<Rightarrow> wasapiContext \<Rightarrow> error option \<times> wasapiContext \<times> event list" where
  "initOnCOMThread k p c =
     (case coCreateInstance p of
        Inl e \<Rightarrow> (Some e, c, [CoCreateInstance])
      | Inr enumerator \<Rightarrow>
     (case initWithEnumerator k p c of
        (r, c', tr) \<Rightarrow> (r, c', CoCreateInstance # tr @ [EnumeratorRelease])))"

text \<open>
  \<^verbatim>\<open>newWASAPIContext\<close>, lines 89 to 114. \<^verbatim>\<open>t.Run\<close> hands the job to the worker and
  waits for its end, so the job's calls follow the worker's. The worker's state is
  returned with the result.
\<close>

record setup_env =
  funcChan :: pointer
  comInit :: "error option"
  plat :: platform

text \<open>The struct literal of lines 95 to 100: the fields it does not name are zero.\<close>

definition initialContext :: "go_int \<Rightarrow> go_int \<Rightarrow> pointer \<Rightarrow> comThread \<Rightarrow> wasapiContext" where
  "initialContext sampleRate' channelCount' mux' t =
     \<lparr>sampleRate = sampleRate', channelCount = channelCount', mux = Some mux',
      comThread = Some t, err = emptyError, sampleReadyEvent = 0, client = None,
      mixFormat = None, bufferFrames = 0, renderClient = None, buf = nilSlice\<rparr>"

definition newWASAPIContext :: "api_consts \<Rightarrow> setup_env \<Rightarrow> go_int \<Rightarrow> go_int \<Rightarrow> pointer \<Rightarrow> (error + wasapiContext) \<times> worker_state \<times> event list" where
  "newWASAPIContext k env sampleRate' channelCount' mux' =
     (case newCOMThread (funcChan env) (comInit env) of
        (Inl e, w, tr) \<Rightarrow> (Inl e, w, tr)
      | (Inr t, w, tr) \<Rightarrow>
     (let c = initialContext sampleRate' channelCount' mux' t
      in (case initOnCOMThread k (plat env) c of
            (Some cerr, c', tr') \<Rightarrow> (Inl cerr, w, tr @ tr')
          | (None, c', tr') \<Rightarrow> (Inr c', w, tr @ tr'))))"

section \<open>The render loop\<close>

text \<open>
  How a call ends: it returns its error (nil is \<open>None\<close>), or it panics. Nothing in the
  file recovers from a panic.
\<close>

datatype outcome = Return "error option" | Panic

text \<open>
  \<^verbatim>\<open>writeOnRenderThread\<close>, lines 248 to 294. \<^verbatim>\<open>frames\<close> is a \<^verbatim>\<open>uint32\<close>: the subtraction
  wraps and \<open>\<le>\<close> is the unsigned order. \<^verbatim>\<open>int(frames)\<close> extends with zeros, and the product
  with the channel count wraps in 64 bits. Lines 270 to 274 allocate when the capacity is
  below \<^verbatim>\<open>buflen\<close> (a signed comparison) and reslice otherwise.
\<close>

definition scratchFor :: "slice \<Rightarrow> go_int \<Rightarrow> (slice \<times> event list) option" where
  "scratchFor b buflen =
     (if int (slice_cap b) < sint buflen
      then (case makeSlice buflen of
              None \<Rightarrow> None
            | Some b' \<Rightarrow> Some (b', [MakeSlice (slice_len b')]))
      else (case reslice b buflen of
              None \<Rightarrow> None
            | Some b' \<Rightarrow> Some (b', [])))"

definition writeOnRenderThread :: "fill_env \<Rightarrow> wasapiContext \<Rightarrow> outcome \<times> wasapiContext \<times> event list" where
  "writeOnRenderThread h c =
     (case getCurrentPadding h of
        Inl e \<Rightarrow> (Return (Some e), c, [GetCurrentPadding])
      | Inr paddingFrames \<Rightarrow>
     (let frames = bufferFrames c - paddingFrames in
      if frames \<le> 0 then (Return None, c, [GetCurrentPadding])
      else
     (case getBuffer h frames of
        Inl e \<Rightarrow> (Return (Some e), c, [GetCurrentPadding, GetBuffer frames])
      | Inr dstBuf \<Rightarrow>
     (let buflen = (ucast frames :: go_int) * channelCount c in
     (case scratchFor (buf c) buflen of
        None \<Rightarrow> (Panic, c, [GetCurrentPadding, GetBuffer frames])
      | Some (b, alloc) \<Rightarrow>
     (let c1 = c\<lparr>buf := b\<rparr>;
          tr = [GetCurrentPadding, GetBuffer frames] @ alloc @
               [ReadFloat32s (slice_len b), CopyToDevice dstBuf (nat (sint buflen)),
                ReleaseBuffer frames 0]
      in (case releaseBuffer h frames 0 of
            Some e \<Rightarrow> (Return (Some e), c1, tr)
          | None \<Rightarrow> (Return None, c1\<lparr>buf := b\<lparr>slice_len := 0\<rparr>\<rparr>, tr))))))))"

text \<open>
  \<^verbatim>\<open>loopOnRenderThread\<close>, lines 232 to 246. The loop has no exit but an error: it is
  run against the list of the wakes to come, and when the list is used up the thread is
  blocked in the wait, with the loop alive.
\<close>

datatype loop_outcome = LoopWaiting | LoopError error | LoopPanic

fun loopOnRenderThread :: "wake list \<Rightarrow> wasapiContext \<Rightarrow> loop_outcome \<times> wasapiContext \<times> event list" where
  "loopOnRenderThread [] c = (LoopWaiting, c, [WaitForSingleObject (sampleReadyEvent c)])"
| "loopOnRenderThread (w # ws) c =
     (case waitForSingleObject w of
        Inl e \<Rightarrow> (LoopError e, c, [WaitForSingleObject (sampleReadyEvent c)])
      | Inr evt \<Rightarrow>
          if evt \<noteq> WAIT_OBJECT_0
          then (LoopError (ErrWaitFailed evt), c, [WaitForSingleObject (sampleReadyEvent c)])
          else
     (case writeOnRenderThread (cycle w) c of
        (Return (Some e), c', tr) \<Rightarrow>
          (LoopError e, c', WaitForSingleObject (sampleReadyEvent c) # tr)
      | (Panic, c', tr) \<Rightarrow>
          (LoopPanic, c', WaitForSingleObject (sampleReadyEvent c) # tr)
      | (Return None, c', tr) \<Rightarrow>
     (case loopOnRenderThread ws c' of
        (r, c'', tr') \<Rightarrow> (r, c'', WaitForSingleObject (sampleReadyEvent c) # tr @ tr'))))"

text \<open>
  The goroutine of lines 211 to 227. Either failure stops the client, whose result is
  dropped, and stores the error in the cell. A panic runs the deferred calls and ends
  the program.
\<close>

record render_env =
  renderCoInit :: "error option"
  wakes :: "wake list"

datatype thread_state = ThreadRunning | ThreadExited | ThreadPanicked

definition renderThread :: "render_env \<Rightarrow> wasapiContext \<Rightarrow> thread_state \<times> wasapiContext \<times> event list" where
  "renderThread r c =
     (case renderCoInit r of
        Some e \<Rightarrow> (ThreadExited, c\<lparr>err := TryStore e (err c)\<rparr>, [CoInitializeEx, Stop])
      | None \<Rightarrow>
     (case loopOnRenderThread (wakes r) c of
        (LoopWaiting, c', tr) \<Rightarrow> (ThreadRunning, c', CoInitializeEx # tr)
      | (LoopError e, c', tr) \<Rightarrow>
          (ThreadExited, c'\<lparr>err := TryStore e (err c')\<rparr>,
           CoInitializeEx # tr @ [Stop, CoUninitialize])
      | (LoopPanic, c', tr) \<Rightarrow> (ThreadPanicked, c', CoInitializeEx # tr @ [CoUninitialize])))"

section \<open>Suspend, resume and the error surface\<close>

text \<open>
  \<^verbatim>\<open>Suspend\<close> (lines 296 to 308) and \<^verbatim>\<open>Resume\<close> (lines 310 to 322) run one call on
  the worker and hand back what it answered, the first argument here.
  \<^verbatim>\<open>Err\<close> is lines 324 to 326.
\<close>

definition Suspend :: "error option \<Rightarrow> wasapiContext \<Rightarrow> error option \<times> wasapiContext \<times> event list" where
  "Suspend stopped c =
     (let cerr = None in
      case stopped of
        Some e \<Rightarrow> (Some e, c, [Stop])
      | None \<Rightarrow> (cerr, c, [Stop]))"

definition Resume :: "error option \<Rightarrow> wasapiContext \<Rightarrow> error option \<times> wasapiContext \<times> event list" where
  "Resume started c =
     (let cerr = None in
      case started of
        Some e \<Rightarrow> (Some e, c, [Start])
      | None \<Rightarrow> (cerr, c, [Start]))"

definition Err :: "wasapiContext \<Rightarrow> error option" where
  "Err c = Load (err c)"

section \<open>Reading a trace\<close>

text \<open>
  The sizes that a trace holds, in order: the frames asked of \<^verbatim>\<open>GetBuffer\<close>, the samples
  pulled from the mixing engine, the frames committed by \<^verbatim>\<open>ReleaseBuffer\<close>, and the
  lengths of the scratch buffers allocated.
\<close>

fun requested :: "event \<Rightarrow> nat list" where
  "requested (GetBuffer frames) = [unat frames]"
| "requested _ = []"

fun pulled :: "event \<Rightarrow> nat list" where
  "pulled (ReadFloat32s n) = [n]"
| "pulled _ = []"

fun committed :: "event \<Rightarrow> nat list" where
  "committed (ReleaseBuffer frames flags) = [unat frames]"
| "committed _ = []"

fun allocated :: "event \<Rightarrow> nat list" where
  "allocated (MakeSlice n) = [n]"
| "allocated _ = []"

definition requests :: "event list \<Rightarrow> nat list" where
  "requests tr = concat (map requested tr)"

definition pulls :: "event list \<Rightarrow> nat list" where
  "pulls tr = concat (map pulled tr)"

definition commits :: "event list \<Rightarrow> nat list" where
  "commits tr = concat (map committed tr)"

definition allocations :: "event list \<Rightarrow> nat list" where
  "allocations tr = concat (map allocated tr)"

section \<open>Concrete inputs\<close>

text \<open>
  Inputs at which the results below are evaluated: the values the Windows SDK gives the
  constants, a platform that accepts every call and reports a buffer of 1024 frames, one
  that offers a closest format instead of the candidate, and a fill cycle in which every
  call succeeds and the padding is the one given.
\<close>

definition sdkConsts :: api_consts where
  "sdkConsts =
     \<lparr>WAVE_FORMAT_EXTENSIBLE = 0xFFFE, SPEAKER_FRONT_LEFT = 0x1, SPEAKER_FRONT_RIGHT = 0x2,
      SPEAKER_FRONT_CENTER = 0x4,
      KSDATAFORMAT_SUBTYPE_IEEE_FLOAT = 0x0000000300000010800000AA00389B71\<rparr>"

definition acceptingPlatform :: platform where
  "acceptingPlatform =
     \<lparr>coCreateInstance = Inr 1, getDefaultAudioEndPoint = Inr 2, activate = Inr 3,
      setClientProperties = None, isFormatSupported = (\<lambda>f. Inr None),
      initialize = (\<lambda>f. None), getBufferSize = Inr 1024, getService = Inr 4,
      createEventEx = Inr 5, setEventHandle = (\<lambda>ev. None), start = None\<rparr>"

definition offeringPlatform :: platform where
  "offeringPlatform =
     acceptingPlatform\<lparr>isFormatSupported := (\<lambda>f. Inr (Some (f\<lparr>nSamplesPerSec := 48000\<rparr>)))\<rparr>"

definition acceptingSetup :: setup_env where
  "acceptingSetup = \<lparr>funcChan = 9, comInit = None, plat = acceptingPlatform\<rparr>"

definition failingSetup :: setup_env where
  "failingSetup = \<lparr>funcChan = 9, comInit = Some (PlatformError 1), plat = acceptingPlatform\<rparr>"

definition fillWith :: "uint32 \<Rightarrow> fill_env" where
  "fillWith padding =
     \<lparr>getCurrentPadding = Inr padding, getBuffer = (\<lambda>frames. Inr 6),
      releaseBuffer = (\<lambda>frames flags. None)\<rparr>"

definition wakeWith :: "uint32 \<Rightarrow> wake" where
  "wakeWith padding = \<lparr>waitForSingleObject = Inr WAIT_OBJECT_0, cycle = fillWith padding\<rparr>"

definition startedContext :: "go_int \<Rightarrow> uint32 \<Rightarrow> wasapiContext" where
  "startedContext channels capacity =
     (initialContext 48000 channels 7 9)\<lparr>bufferFrames := capacity\<rparr>"

definition failingRender :: render_env where
  "failingRender = \<lparr>renderCoInit = Some (PlatformError 2), wakes = []\<rparr>"

text \<open>
  A platform accepts a format when every call of the setup succeeds and the format-support
  query reports the format as supported exactly.
\<close>

definition accepts :: "platform \<Rightarrow> WAVEFORMATEXTENSIBLE \<Rightarrow> bool" where
  "accepts p f \<longleftrightarrow>
     \<not> isl (coCreateInstance p) \<and> \<not> isl (getDefaultAudioEndPoint p) \<and> \<not> isl (activate p)
     \<and> setClientProperties p = None \<and> isFormatSupported p f = Inr None
     \<and> initialize p f = None \<and> \<not> isl (getBufferSize p) \<and> \<not> isl (getService p)
     \<and> \<not> isl (createEventEx p) \<and> setEventHandle p (projr (createEventEx p)) = None
     \<and> start p = None"

section \<open>What each operation leaves unchanged\<close>

lemma writeOnRenderThread_only_buf:
  "writeOnRenderThread h c = (r, c', tr) \<Longrightarrow> c' = c\<lparr>buf := buf c'\<rparr>"
  by (auto simp: writeOnRenderThread_def Let_def split: sum.splits option.splits if_splits prod.splits)

lemma loopOnRenderThread_only_buf:
  "loopOnRenderThread ws c = (r, c', tr) \<Longrightarrow> c' = c\<lparr>buf := buf c'\<rparr>"
proof (induction ws arbitrary: c r c' tr)
  case Nil
  then show ?case by simp
next
  case (Cons w ws)
  obtain o1 c1 tr1 where w1: "writeOnRenderThread (cycle w) c = (o1, c1, tr1)"
    by (cases "writeOnRenderThread (cycle w) c") 
  obtain r2 c2 tr2 where l2: "loopOnRenderThread ws c1 = (r2, c2, tr2)"
    by (cases "loopOnRenderThread ws c1") 
  from Cons.prems w1 l2 have "c' = c \<or> c' = c1 \<or> c' = c2"
    by (auto split: sum.splits if_splits outcome.splits option.splits)
  moreover have "c1 = c\<lparr>buf := buf c1\<rparr>"
    by (rule writeOnRenderThread_only_buf [OF w1])
  moreover have "c2 = c1\<lparr>buf := buf c2\<rparr>"
    by (rule Cons.IH [OF l2])
  ultimately show ?case
    by (metis wasapiContext.surjective wasapiContext.update_convs(11) wasapiContext.select_convs(11))
qed

lemma loopOnRenderThread_err:
  "loopOnRenderThread ws c = (r, c', tr) \<Longrightarrow> err c' = err c"
  by (drule loopOnRenderThread_only_buf) (erule ssubst, simp)

lemma initClient_err: "initClient p c f = (r, c', tr) \<Longrightarrow> err c' = err c"
  by (auto simp: initClient_def Let_def split: sum.splits option.splits)

lemma initWithDevice_err: "initWithDevice k p c = (r, c', tr) \<Longrightarrow> err c' = err c"
  by (auto simp: initWithDevice_def Let_def split: sum.splits option.splits prod.splits dest: initClient_err)

lemma initOnCOMThread_err: "initOnCOMThread k p c = (r, c', tr) \<Longrightarrow> err c' = err c"
  by (auto simp: initOnCOMThread_def initWithEnumerator_def split: sum.splits prod.splits dest: initWithDevice_err)

lemma newWASAPIContext_err:
  "newWASAPIContext k env sr cc m = (Inr c, w, tr) \<Longrightarrow> err c = emptyError"
  by (auto simp: newWASAPIContext_def initialContext_def Let_def split: prod.splits sum.splits option.splits dest: initOnCOMThread_err)

lemma TryStore_empty: "TryStore e None = Some e"
  by (simp add: TryStore_def)

lemma TryStore_set: "TryStore e (Some first) = Some first"
  by (simp add: TryStore_def)

lemma TryStore_foldl: "foldl (\<lambda>cell x. TryStore x cell) (Some first) es = Some first"
  by (induction es) (simp_all add: TryStore_set)

lemma writeOnRenderThread_err:
  "writeOnRenderThread h c = (r, c', tr) \<Longrightarrow> err c' = err c"
  by (drule writeOnRenderThread_only_buf) (erule ssubst, simp)

lemma renderThread_err_changes:
  assumes "renderThread r c = (st, c', tr)" and "err c' \<noteq> err c"
  shows "st = ThreadExited \<and> err c = None"
  using assms
  by (auto simp: renderThread_def TryStore_def
      split: option.splits prod.splits loop_outcome.splits dest: loopOnRenderThread_err)

section \<open>Evaluation at the concrete inputs\<close>

lemmas setup_eval =
  newWASAPIContext_def newCOMThread_def comThreadGoroutine_def chanReceive_def
  initialContext_def initOnCOMThread_def initWithEnumerator_def initWithDevice_def
  initClient_def candidateFormat_def go_div_def emptyError_def nilSlice_def
  acceptingSetup_def failingSetup_def acceptingPlatform_def offeringPlatform_def sdkConsts_def
  Let_def

lemmas fill_eval =
  writeOnRenderThread_def scratchFor_def makeSlice_def reslice_def fillWith_def wakeWith_def
  startedContext_def initialContext_def emptyError_def nilSlice_def WAIT_OBJECT_0_def Let_def

lemma accepted_stereo:
  "newWASAPIContext sdkConsts acceptingSetup 48000 2 7 =
     (Inr ((initialContext 48000 2 7 9)
             \<lparr>sampleReadyEvent := 5, client := Some 3,
              mixFormat := Some (candidateFormat sdkConsts (initialContext 48000 2 7 9)),
              bufferFrames := 1024, renderClient := Some 4\<rparr>),
      InJobLoop,
      [CoInitializeEx, CoCreateInstance, GetDefaultAudioEndPoint, Activate, SetClientProperties,
       IsFormatSupported (candidateFormat sdkConsts (initialContext 48000 2 7 9)),
       Initialize (candidateFormat sdkConsts (initialContext 48000 2 7 9)),
       GetBufferSize, GetService, CreateEventEx, SetEventHandle 5, Start, GoRenderThread,
       DeviceRelease, EnumeratorRelease])"
  by (simp add: setup_eval)

lemma failingRender_eval:
  "renderThread failingRender (c\<lparr>err := cell\<rparr>)
     = (ThreadExited, c\<lparr>err := TryStore (PlatformError 2) cell\<rparr>, [CoInitializeEx, Stop])"
  by (simp add: renderThread_def failingRender_def)

lemma stereo_cycle_eval:
  "writeOnRenderThread (fillWith 0) (startedContext 2 1024) =
     (Return None, (startedContext 2 1024)\<lparr>buf := \<lparr>slice_len = 0, slice_cap = 2048\<rparr>\<rparr>,
      [GetCurrentPadding, GetBuffer 1024, MakeSlice 2048, ReadFloat32s 2048,
       CopyToDevice 6 2048, ReleaseBuffer 1024 0])"
  by (simp add: fill_eval)

lemma minus_one_uint32: "(- 1 :: uint32) = 4294967295"
  by simp

lemma wrapped_frames: "(ucast (- 1 :: uint32) :: go_int) = 4294967295"
  unfolding minus_one_uint32 by simp

section \<open>The error cell\<close>

text \<open>
  C6. The last-fatal-error cell is write-once-wins. It is empty in a context that
  construction returns; a store never leaves it empty and leaves a set cell as it is, so
  after any sequence of stores \<^verbatim>\<open>Err\<close> returns the first error stored, or nil when
  there was none; the render thread, which stores its failure when it exits, sets an empty
  cell and never changes a set one.
\<close>

theorem error_cell_write_once:
  "emptyError = None
   \<and> (\<forall>w tr. newWASAPIContext k env sr cc m = (Inr made, w, tr) \<longrightarrow> Err made = None)
   \<and> TryStore e cell \<noteq> None
   \<and> (cell \<noteq> None \<longrightarrow> TryStore e cell = cell)
   \<and> Err (c\<lparr>err := foldl (\<lambda>cell x. TryStore x cell) emptyError es\<rparr>)
       = (case es of [] \<Rightarrow> None | first # later \<Rightarrow> Some first)
   \<and> (\<forall>c' tr. renderThread r c = (ThreadExited, c', tr) \<longrightarrow> Err c' \<noteq> None)
   \<and> (\<forall>st c' tr. renderThread r c = (st, c', tr) \<longrightarrow> Err c \<noteq> None \<longrightarrow> Err c' = Err c)"
proof (intro conjI allI impI)
  show "emptyError = None" by (simp add: emptyError_def)
  show "TryStore e cell \<noteq> None" by (simp add: TryStore_def split: option.splits)
  show "TryStore e cell = cell" if "cell \<noteq> None" using that by (auto simp: TryStore_def)
  show "Err made = None" if "newWASAPIContext k env sr cc m = (Inr made, w, tr)" for w tr
    using newWASAPIContext_err [OF that] by (simp add: Err_def Load_def emptyError_def)
  show "Err (c\<lparr>err := foldl (\<lambda>cell x. TryStore x cell) emptyError es\<rparr>)
       = (case es of [] \<Rightarrow> None | first # later \<Rightarrow> Some first)"
    by (cases es) (simp_all add: Err_def Load_def emptyError_def TryStore_empty TryStore_foldl)
  show "Err c' = Err c" if "renderThread r c = (st, c', tr)" "Err c \<noteq> None" for st c' tr
    using that
    by (auto simp: renderThread_def Err_def Load_def TryStore_def
        split: option.splits prod.splits loop_outcome.splits dest: loopOnRenderThread_err)
  show "Err c' \<noteq> None" if "renderThread r c = (ThreadExited, c', tr)" for c' tr
    using that
    by (auto simp: renderThread_def Err_def Load_def TryStore_def
        split: option.splits prod.splits loop_outcome.splits)
qed

theorem error_cell_write_once_witness:
  "Err (fst (snd (renderThread failingRender
        ((startedContext 2 1024)\<lparr>err := Some (PlatformError 1)\<rparr>)))) = Some (PlatformError 1)
   \<and> Err (fst (snd (renderThread failingRender (startedContext 2 1024)))) \<noteq> None
   \<and> TryStore (PlatformError 2) (Some (PlatformError 1)) = Some (PlatformError 1)
   \<and> Err ((startedContext 2 1024)
        \<lparr>err := foldl (\<lambda>cell x. TryStore x cell) emptyError [PlatformError 1, PlatformError 2]\<rparr>)
       = Some (PlatformError 1)
   \<and> Err (projr (fst (newWASAPIContext sdkConsts acceptingSetup 48000 2 7))) = None"
proof -
  let ?c = "(startedContext 2 1024)\<lparr>err := Some (PlatformError 1)\<rparr>"
  let ?built = "projr (fst (newWASAPIContext sdkConsts acceptingSetup 48000 2 7))"
  note thm1 = error_cell_write_once
    [where k = sdkConsts and env = acceptingSetup and sr = 48000 and cc = 2 and m = 7
       and made = ?built and e = "PlatformError 2" and cell = "Some (PlatformError 1)"
       and c = ?c and es = "[PlatformError 1, PlatformError 2]" and r = failingRender]
  note thm2 = error_cell_write_once
    [where k = sdkConsts and env = acceptingSetup and sr = 48000 and cc = 2 and m = 7
       and made = ?built and e = "PlatformError 2" and cell = "Some (PlatformError 1)"
       and c = "startedContext 2 1024" and es = "[PlatformError 1, PlatformError 2]"
       and r = failingRender]
  have set: "Err ?c \<noteq> None"
    by (simp add: Err_def Load_def)
  have r1: "renderThread failingRender ?c
      = (ThreadExited, ?c\<lparr>err := TryStore (PlatformError 2) (Some (PlatformError 1))\<rparr>,
         [CoInitializeEx, Stop])"
    using failingRender_eval [where c = "startedContext 2 1024" and cell = "Some (PlatformError 1)"] by simp
  have r2: "renderThread failingRender (startedContext 2 1024)
      = (ThreadExited, (startedContext 2 1024)\<lparr>err := TryStore (PlatformError 2) None\<rparr>,
         [CoInitializeEx, Stop])"
    using failingRender_eval [where c = "startedContext 2 1024" and cell = None]
    by (simp add: startedContext_def initialContext_def emptyError_def)
  have a: "Err (fst (snd (renderThread failingRender ?c))) = Some (PlatformError 1)"
  proof -
    from thm1 have "\<forall>st c' tr. renderThread failingRender ?c = (st, c', tr) \<longrightarrow>
        Err ?c \<noteq> None \<longrightarrow> Err c' = Err ?c"
      by (elim conjE)
    with r1 set show ?thesis by (simp add: Err_def Load_def)
  qed
  have b: "Err (fst (snd (renderThread failingRender (startedContext 2 1024)))) \<noteq> None"
  proof -
    from thm2 have "\<forall>c' tr. renderThread failingRender (startedContext 2 1024)
        = (ThreadExited, c', tr) \<longrightarrow> Err c' \<noteq> None"
      by (elim conjE)
    with r2 show ?thesis by simp
  qed
  have c: "TryStore (PlatformError 2) (Some (PlatformError 1)) = Some (PlatformError 1)"
  proof -
    from thm1 have "Some (PlatformError 1) \<noteq> None \<longrightarrow>
        TryStore (PlatformError 2) (Some (PlatformError 1)) = Some (PlatformError 1)"
      by (elim conjE)
    then show ?thesis by simp
  qed
  have d: "Err ((startedContext 2 1024)
        \<lparr>err := foldl (\<lambda>cell x. TryStore x cell) emptyError [PlatformError 1, PlatformError 2]\<rparr>)
       = Some (PlatformError 1)"
  proof -
    from thm2 have "Err ((startedContext 2 1024)
        \<lparr>err := foldl (\<lambda>cell x. TryStore x cell) emptyError [PlatformError 1, PlatformError 2]\<rparr>)
       = (case [PlatformError 1, PlatformError 2] of [] \<Rightarrow> None | first # later \<Rightarrow> Some first)"
      by (elim conjE)
    then show ?thesis by simp
  qed
  have e: "Err ?built = None"
  proof -
    from thm1 have "\<forall>w tr. newWASAPIContext sdkConsts acceptingSetup 48000 2 7 = (Inr ?built, w, tr)
        \<longrightarrow> Err ?built = None"
      by (elim conjE)
    moreover have "fst (newWASAPIContext sdkConsts acceptingSetup 48000 2 7) = Inr ?built"
      by (simp add: accepted_stereo)
    ultimately show ?thesis
      by (metis prod.collapse)
  qed
  show ?thesis using a b c d e by blast
qed

section \<open>Suspend and resume\<close>

text \<open>
  C8. \<^verbatim>\<open>Suspend\<close> and \<^verbatim>\<open>Resume\<close> return what the stop or start call answered, nil
  or its failure, and leave the context, hence the error cell, as it was. Setup and the
  fill cycle do not write the cell either: when the render thread leaves the cell
  different, the thread has exited on a failure and the cell was empty before.
\<close>

theorem suspend_resume_leave_error_cell:
  "Suspend stopped c = (stopped, c, [Stop])
   \<and> Resume started c = (started, c, [Start])
   \<and> Err (fst (snd (Suspend stopped c))) = Err c
   \<and> Err (fst (snd (Resume started c))) = Err c
   \<and> Err (fst (snd (initOnCOMThread k p c))) = Err c
   \<and> Err (fst (snd (writeOnRenderThread h c))) = Err c
   \<and> (Err (fst (snd (renderThread r c))) \<noteq> Err c \<longrightarrow>
        fst (renderThread r c) = ThreadExited \<and> Err c = None)"
proof (intro conjI impI)
  show s: "Suspend stopped c = (stopped, c, [Stop])"
    by (simp add: Suspend_def split: option.splits)
  show r: "Resume started c = (started, c, [Start])"
    by (simp add: Resume_def split: option.splits)
  show "Err (fst (snd (Suspend stopped c))) = Err c" by (simp add: s)
  show "Err (fst (snd (Resume started c))) = Err c" by (simp add: r)
  show "Err (fst (snd (initOnCOMThread k p c))) = Err c"
    using initOnCOMThread_err [of k p c] by (cases "initOnCOMThread k p c") (simp add: Err_def)
  show "Err (fst (snd (writeOnRenderThread h c))) = Err c"
    using writeOnRenderThread_err [of h c] by (cases "writeOnRenderThread h c") (simp add: Err_def)
  assume changed: "Err (fst (snd (renderThread r c))) \<noteq> Err c"
  obtain st c' tr where run: "renderThread r c = (st, c', tr)"
    by (cases "renderThread r c")
  with changed have "err c' \<noteq> err c" by (simp add: Err_def Load_def)
  then have "st = ThreadExited \<and> err c = None"
    by (rule renderThread_err_changes [OF run])
  then show "fst (renderThread r c) = ThreadExited" and "Err c = None"
    by (simp_all add: run Err_def Load_def)
qed

theorem suspend_resume_leave_error_cell_witness:
  "Suspend (Some (PlatformError 3)) (startedContext 2 1024)
      = (Some (PlatformError 3), startedContext 2 1024, [Stop])
   \<and> Resume None (startedContext 2 1024) = (None, startedContext 2 1024, [Start])
   \<and> Err (fst (snd (renderThread failingRender (startedContext 2 1024))))
        = Some (PlatformError 2)
   \<and> fst (renderThread failingRender (startedContext 2 1024)) = ThreadExited
   \<and> Err (startedContext 2 1024) = None"
proof -
  note inst = suspend_resume_leave_error_cell
    [where stopped = "Some (PlatformError 3)" and started = None
       and c = "startedContext 2 1024" and r = failingRender and k = sdkConsts
       and p = acceptingPlatform and h = "fillWith 0"]
  have run: "renderThread failingRender (startedContext 2 1024)
      = (ThreadExited, (startedContext 2 1024)\<lparr>err := TryStore (PlatformError 2) None\<rparr>,
         [CoInitializeEx, Stop])"
    using failingRender_eval [where c = "startedContext 2 1024" and cell = None]
    by (simp add: startedContext_def initialContext_def emptyError_def)
  have stored: "Err (fst (snd (renderThread failingRender (startedContext 2 1024))))
      = Some (PlatformError 2)"
    by (simp add: run Err_def Load_def TryStore_empty)
  have before: "Err (startedContext 2 1024) = None"
    by (simp add: Err_def Load_def startedContext_def initialContext_def emptyError_def)
  have changed: "Err (fst (snd (renderThread failingRender (startedContext 2 1024))))
      \<noteq> Err (startedContext 2 1024)"
    by (simp add: stored before)
  from inst have "Err (fst (snd (renderThread failingRender (startedContext 2 1024))))
      \<noteq> Err (startedContext 2 1024) \<longrightarrow>
      fst (renderThread failingRender (startedContext 2 1024)) = ThreadExited
      \<and> Err (startedContext 2 1024) = None"
    by (elim conjE)
  with changed have "fst (renderThread failingRender (startedContext 2 1024)) = ThreadExited"
    and "Err (startedContext 2 1024) = None"
    by simp_all
  moreover from inst have "Suspend (Some (PlatformError 3)) (startedContext 2 1024)
      = (Some (PlatformError 3), startedContext 2 1024, [Stop])"
    by (elim conjE)
  moreover from inst
  have "Resume None (startedContext 2 1024) = (None, startedContext 2 1024, [Start])"
    by (elim conjE)
  ultimately show ?thesis using stored by simp
qed

section \<open>The fill cycle\<close>

text \<open>
  C10. A fill cycle changes no field of the context but the scratch buffer, whatever its
  outcome: sample rate, channel count, mix format, buffer capacity, the client and
  render-client handles and the readiness event are the ones it was given, and so are the
  mixing engine, the worker and the error cell.
\<close>

theorem fill_cycle_changes_only_scratch:
  assumes "writeOnRenderThread h c = (r, c', tr)"
  shows "sampleRate c' = sampleRate c \<and> channelCount c' = channelCount c
    \<and> mixFormat c' = mixFormat c \<and> bufferFrames c' = bufferFrames c
    \<and> client c' = client c \<and> renderClient c' = renderClient c
    \<and> sampleReadyEvent c' = sampleReadyEvent c
    \<and> mux c' = mux c \<and> comThread c' = comThread c \<and> err c' = err c
    \<and> c' = c\<lparr>buf := buf c'\<rparr>"
proof -
  have eq: "c' = c\<lparr>buf := buf c'\<rparr>"
    by (rule writeOnRenderThread_only_buf [OF assms])
  have "sampleRate (c\<lparr>buf := buf c'\<rparr>) = sampleRate c"
    and "channelCount (c\<lparr>buf := buf c'\<rparr>) = channelCount c"
    and "mixFormat (c\<lparr>buf := buf c'\<rparr>) = mixFormat c"
    and "bufferFrames (c\<lparr>buf := buf c'\<rparr>) = bufferFrames c"
    and "client (c\<lparr>buf := buf c'\<rparr>) = client c"
    and "renderClient (c\<lparr>buf := buf c'\<rparr>) = renderClient c"
    and "sampleReadyEvent (c\<lparr>buf := buf c'\<rparr>) = sampleReadyEvent c"
    and "mux (c\<lparr>buf := buf c'\<rparr>) = mux c"
    and "comThread (c\<lparr>buf := buf c'\<rparr>) = comThread c"
    and "err (c\<lparr>buf := buf c'\<rparr>) = err c"
    by simp_all
  then show ?thesis using eq by metis
qed

theorem fill_cycle_changes_only_scratch_witness:
  "sampleRate (fst (snd (writeOnRenderThread (fillWith 0) (startedContext 2 1024)))) = 48000
   \<and> channelCount (fst (snd (writeOnRenderThread (fillWith 0) (startedContext 2 1024)))) = 2
   \<and> bufferFrames (fst (snd (writeOnRenderThread (fillWith 0) (startedContext 2 1024)))) = 1024
   \<and> buf (fst (snd (writeOnRenderThread (fillWith 0) (startedContext 2 1024))))
        = \<lparr>slice_len = 0, slice_cap = 2048\<rparr>"
proof -
  have "sampleRate (startedContext 2 1024) = 48000"
    and "channelCount (startedContext 2 1024) = 2"
    and "bufferFrames (startedContext 2 1024) = 1024"
    by (simp_all add: startedContext_def initialContext_def)
  with fill_cycle_changes_only_scratch [OF stereo_cycle_eval] show ?thesis
    by (simp add: stereo_cycle_eval)
qed

text \<open>
  C2. With a capacity of 1024 frames and a padding of 1025 the unsigned subtraction wraps
  to 4294967295, the test \<^verbatim>\<open>frames <= 0\<close> fails, and the cycle asks for a write
  pointer, pulls and commits.
\<close>

theorem padding_above_capacity_wraps:
  "writeOnRenderThread (fillWith 1025) (startedContext 2 1024) =
     (Return None, (startedContext 2 1024)\<lparr>buf := \<lparr>slice_len = 0, slice_cap = 8589934590\<rparr>\<rparr>,
      [GetCurrentPadding, GetBuffer 4294967295, MakeSlice 8589934590, ReadFloat32s 8589934590,
       CopyToDevice 6 8589934590, ReleaseBuffer 4294967295 0])"
  by (simp add: fill_eval wrapped_frames)

section \<open>The worker after a failed apartment setup\<close>

text \<open>
  C3. When \<^verbatim>\<open>CoInitializeEx\<close> fails, the caller receives the failure, and the goroutine
  is in its loop over the job channel.
\<close>

theorem worker_left_in_job_loop:
  "newCOMThread 9 (Some (PlatformError 1)) = (Inl (PlatformError 1), InJobLoop, [CoInitializeEx])
   \<and> newWASAPIContext sdkConsts failingSetup 48000 2 7
       = (Inl (PlatformError 1), InJobLoop, [CoInitializeEx])"
  by (simp add: setup_eval)

section \<open>The paths through a fill cycle\<close>

lemma scratchFor_Some:
  assumes "scratchFor b n = Some (b', al)"
  shows "0 \<le> sint n \<and> slice_len b' = nat (sint n)
    \<and> al = (if slice_cap b < nat (sint n) then [MakeSlice (nat (sint n))] else [])
    \<and> slice_cap b' = max (slice_cap b) (nat (sint n))"
proof (cases "int (slice_cap b) < sint n")
  case True
  then have pos: "0 \<le> sint n" and less: "slice_cap b < nat (sint n)"
    by linarith+
  from assms True pos have "b' = \<lparr>slice_len = nat (sint n), slice_cap = nat (sint n)\<rparr>"
    and "al = [MakeSlice (nat (sint n))]"
    by (simp_all add: scratchFor_def makeSlice_def)
  with pos less show ?thesis by simp
next
  case False
  with assms have pos: "0 \<le> sint n"
    by (simp add: scratchFor_def reslice_def split: if_splits)
  with False have fits: "\<not> slice_cap b < nat (sint n)" and "nat (sint n) \<le> slice_cap b"
    by linarith+
  from assms False pos have "b' = b\<lparr>slice_len := nat (sint n)\<rparr>" and "al = []"
    by (simp_all add: scratchFor_def reslice_def split: if_splits)
  with pos fits \<open>nat (sint n) \<le> slice_cap b\<close> show ?thesis by simp
qed


lemma trace_reads:
  "pulls [] = []" "requests [] = []" "commits [] = []" "allocations [] = []"
  "pulls (e # tr) = pulled e @ pulls tr"
  "requests (e # tr) = requested e @ requests tr"
  "commits (e # tr) = committed e @ commits tr"
  "allocations (e # tr) = allocated e @ allocations tr"
  "pulls (tr @ tr') = pulls tr @ pulls tr'"
  "requests (tr @ tr') = requests tr @ requests tr'"
  "commits (tr @ tr') = commits tr @ commits tr'"
  "allocations (tr @ tr') = allocations tr @ allocations tr'"
  by (simp_all add: pulls_def requests_def commits_def allocations_def)

text \<open>The four ways through a fill cycle.\<close>

lemma writeOnRenderThread_padding_error:
  "getCurrentPadding h = Inl e \<Longrightarrow>
   writeOnRenderThread h c = (Return (Some e), c, [GetCurrentPadding])"
  by (simp add: writeOnRenderThread_def)

lemma writeOnRenderThread_no_room:
  "getCurrentPadding h = Inr padding \<Longrightarrow> bufferFrames c - padding \<le> 0 \<Longrightarrow>
   writeOnRenderThread h c = (Return None, c, [GetCurrentPadding])"
  by (simp add: writeOnRenderThread_def)

lemma writeOnRenderThread_buffer_error:
  "getCurrentPadding h = Inr padding \<Longrightarrow> \<not> bufferFrames c - padding \<le> 0 \<Longrightarrow>
   getBuffer h (bufferFrames c - padding) = Inl e \<Longrightarrow>
   writeOnRenderThread h c
     = (Return (Some e), c, [GetCurrentPadding, GetBuffer (bufferFrames c - padding)])"
  by (simp add: writeOnRenderThread_def)

lemma writeOnRenderThread_panic:
  "getCurrentPadding h = Inr padding \<Longrightarrow> \<not> bufferFrames c - padding \<le> 0 \<Longrightarrow>
   getBuffer h (bufferFrames c - padding) = Inr dst \<Longrightarrow>
   scratchFor (buf c) (ucast (bufferFrames c - padding) * channelCount c) = None \<Longrightarrow>
   writeOnRenderThread h c
     = (Panic, c, [GetCurrentPadding, GetBuffer (bufferFrames c - padding)])"
  by (simp add: writeOnRenderThread_def)

lemma writeOnRenderThread_filled:
  "getCurrentPadding h = Inr padding \<Longrightarrow> \<not> bufferFrames c - padding \<le> 0 \<Longrightarrow>
   getBuffer h (bufferFrames c - padding) = Inr dst \<Longrightarrow>
   scratchFor (buf c) (ucast (bufferFrames c - padding) * channelCount c) = Some (b, al) \<Longrightarrow>
   writeOnRenderThread h c
     = (Return (releaseBuffer h (bufferFrames c - padding) 0),
        c\<lparr>buf := (case releaseBuffer h (bufferFrames c - padding) 0 of
                     Some e \<Rightarrow> b | None \<Rightarrow> b\<lparr>slice_len := 0\<rparr>)\<rparr>,
        [GetCurrentPadding, GetBuffer (bufferFrames c - padding)] @ al @
        [ReadFloat32s (slice_len b),
         CopyToDevice dst (nat (sint (ucast (bufferFrames c - padding) * channelCount c))),
         ReleaseBuffer (bufferFrames c - padding) 0])"
  by (simp add: writeOnRenderThread_def Let_def split: option.splits)


lemma writeOnRenderThread_scratch:
  assumes run: "writeOnRenderThread h c = (r, c', tr)"
  shows "(pulls tr = [] \<and> allocations tr = [] \<and> buf c' = buf c)
    \<or> (\<exists>n. pulls tr = [n]
          \<and> allocations tr = (if slice_cap (buf c) < n then [n] else [])
          \<and> slice_cap (buf c') = max (slice_cap (buf c)) n
          \<and> slice_len (buf c') = (if r = Return None then 0 else n))"
proof (cases "getCurrentPadding h")
  case (Inl e)
  from run writeOnRenderThread_padding_error [OF Inl, of c]
  have "c' = c" and "tr = [GetCurrentPadding]" by auto
  then show ?thesis by (simp add: trace_reads)
next
  case (Inr padding)
  let ?frames = "bufferFrames c - padding"
  show ?thesis
  proof (cases "?frames \<le> 0")
    case True
    from run writeOnRenderThread_no_room [OF Inr True]
    have "c' = c" and "tr = [GetCurrentPadding]" by auto
    then show ?thesis by (simp add: trace_reads)
  next
    case False
    show ?thesis
    proof (cases "getBuffer h ?frames")
      case (Inl e)
      from run writeOnRenderThread_buffer_error [OF Inr False Inl]
      have "c' = c" and "tr = [GetCurrentPadding, GetBuffer ?frames]" by auto
      then show ?thesis by (simp add: trace_reads)
    next
      case got: (Inr dst)
      let ?buflen = "(ucast ?frames :: go_int) * channelCount c"
      show ?thesis
      proof (cases "scratchFor (buf c) ?buflen")
        case None
        from run writeOnRenderThread_panic [OF Inr False got None]
        have "c' = c" and "tr = [GetCurrentPadding, GetBuffer ?frames]" by auto
        then show ?thesis by (simp add: trace_reads)
      next
        case (Some a)
        obtain b al where a: "a = (b, al)" by (cases a)
        let ?n = "nat (sint ?buflen)"
        from scratchFor_Some [OF Some [unfolded a]]
        have len: "slice_len b = ?n"
          and al: "al = (if slice_cap (buf c) < ?n then [MakeSlice ?n] else [])"
          and cap: "slice_cap b = max (slice_cap (buf c)) ?n"
          by simp_all
        note filled = writeOnRenderThread_filled [OF Inr False got Some [unfolded a]]
        from run filled have r: "r = Return (releaseBuffer h ?frames 0)"
          and c': "c' = c\<lparr>buf := (case releaseBuffer h ?frames 0 of
                     Some e \<Rightarrow> b | None \<Rightarrow> b\<lparr>slice_len := 0\<rparr>)\<rparr>"
          and tr: "tr = [GetCurrentPadding, GetBuffer ?frames] @ al @
             [ReadFloat32s (slice_len b), CopyToDevice dst ?n, ReleaseBuffer ?frames 0]"
          by auto
        have p: "pulls tr = [?n]"
          by (simp add: tr al len trace_reads)
        have q: "allocations tr = (if slice_cap (buf c) < ?n then [?n] else [])"
          by (simp add: tr al trace_reads)
        have s: "slice_cap (buf c') = max (slice_cap (buf c)) ?n"
          by (simp add: c' cap split: option.splits)
        have l: "slice_len (buf c') = (if r = Return None then 0 else ?n)"
          by (simp add: c' r len split: option.splits)
        from p q s l show ?thesis by blast
      qed
    qed
  qed
qed

lemma writeOnRenderThread_cap:
  assumes "writeOnRenderThread h c = (r, c', tr)"
  shows "slice_cap (buf c) \<le> slice_cap (buf c')"
proof -
  from writeOnRenderThread_scratch [OF assms]
  consider "buf c' = buf c"
    | n where "slice_cap (buf c') = max (slice_cap (buf c)) n"
    by blast
  then show ?thesis by cases simp_all
qed

lemma loopOnRenderThread_step:
  assumes "loopOnRenderThread (w # ws) c = (r, c', tr)"
    and "writeOnRenderThread (cycle w) c = (o1, c1, tr1)"
    and "loopOnRenderThread ws c1 = (r2, c2, tr2)"
  shows "c' = c \<or> c' = c1 \<or> (c' = c2 \<and> o1 = Return None
      \<and> waitForSingleObject w = Inr WAIT_OBJECT_0 \<and> r = r2)"
  using assms
  by (auto split: sum.splits if_splits outcome.splits option.splits)

lemma loopOnRenderThread_cap:
  "loopOnRenderThread ws c = (r, c', tr) \<Longrightarrow> slice_cap (buf c) \<le> slice_cap (buf c')"
proof (induction ws arbitrary: c r c' tr)
  case Nil
  then show ?case by simp
next
  case (Cons w ws)
  obtain o1 c1 tr1 where w1: "writeOnRenderThread (cycle w) c = (o1, c1, tr1)"
    by (cases "writeOnRenderThread (cycle w) c")
  obtain r2 c2 tr2 where l2: "loopOnRenderThread ws c1 = (r2, c2, tr2)"
    by (cases "loopOnRenderThread ws c1")
  from loopOnRenderThread_step [OF Cons.prems w1 l2]
  have "c' = c \<or> c' = c1 \<or> c' = c2" by blast
  moreover have "slice_cap (buf c) \<le> slice_cap (buf c1)"
    by (rule writeOnRenderThread_cap [OF w1])
  moreover have "slice_cap (buf c1) \<le> slice_cap (buf c2)"
    by (rule Cons.IH [OF l2])
  ultimately show ?case by auto
qed


lemma loopOnRenderThread_append:
  "loopOnRenderThread ws c = (LoopWaiting, c1, tr1) \<Longrightarrow>
   loopOnRenderThread ws' c1 = (r2, c2, tr2) \<Longrightarrow>
   \<exists>tr. loopOnRenderThread (ws @ ws') c = (r2, c2, tr)"
proof (induction ws arbitrary: c c1 tr1)
  case Nil
  then show ?case by simp
next
  case (Cons w ws)
  obtain o1 c3 tr3 where w1: "writeOnRenderThread (cycle w) c = (o1, c3, tr3)"
    by (cases "writeOnRenderThread (cycle w) c")
  obtain r4 c4 tr4 where l4: "loopOnRenderThread ws c3 = (r4, c4, tr4)"
    by (cases "loopOnRenderThread ws c3")
  from Cons.prems(1) w1 l4 have ok: "waitForSingleObject w = Inr WAIT_OBJECT_0"
    and o1: "o1 = Return None" and r4: "r4 = LoopWaiting" and c4: "c4 = c1"
    by (auto split: sum.splits if_splits outcome.splits option.splits)
  from Cons.IH [OF l4 [unfolded r4 c4] Cons.prems(2)]
  obtain tr where "loopOnRenderThread (ws @ ws') c3 = (r2, c2, tr)" by blast
  with ok w1 o1 show ?case by simp
qed

lemma peak_loop_eval:
  "loopOnRenderThread (map wakeWith [100, 150, 0, 190]) (startedContext 1 200) =
    (LoopWaiting, (startedContext 1 200)\<lparr>buf := \<lparr>slice_len = 0, slice_cap = 200\<rparr>\<rparr>,
  [WaitForSingleObject 0, GetCurrentPadding, GetBuffer 100, MakeSlice 100,
   ReadFloat32s 100, CopyToDevice 6 100, ReleaseBuffer 100 0,
   WaitForSingleObject 0, GetCurrentPadding, GetBuffer 50, ReadFloat32s 50,
   CopyToDevice 6 50, ReleaseBuffer 50 0, WaitForSingleObject 0,
   GetCurrentPadding, GetBuffer 200, MakeSlice 200, ReadFloat32s 200,
   CopyToDevice 6 200, ReleaseBuffer 200 0, WaitForSingleObject 0,
   GetCurrentPadding, GetBuffer 10, ReadFloat32s 10, CopyToDevice 6 10,
   ReleaseBuffer 10 0, WaitForSingleObject 0])"
  by (simp add: fill_eval)

lemma peak_prefix_eval:
  "loopOnRenderThread (map wakeWith [100, 150]) (startedContext 1 200) =
    (LoopWaiting, (startedContext 1 200)\<lparr>buf := \<lparr>slice_len = 0, slice_cap = 100\<rparr>\<rparr>,
  [WaitForSingleObject 0, GetCurrentPadding, GetBuffer 100, MakeSlice 100,
   ReadFloat32s 100, CopyToDevice 6 100, ReleaseBuffer 100 0,
   WaitForSingleObject 0, GetCurrentPadding, GetBuffer 50, ReadFloat32s 50,
   CopyToDevice 6 50, ReleaseBuffer 50 0, WaitForSingleObject 0])"
  by (simp add: fill_eval)

lemma writeOnRenderThread_len:
  assumes "writeOnRenderThread h c = (Return None, c', tr)" and "slice_len (buf c) = 0"
  shows "slice_len (buf c') = 0"
  using writeOnRenderThread_scratch [OF assms(1)] assms(2) by auto

lemma loopOnRenderThread_len:
  "loopOnRenderThread ws c = (LoopWaiting, c', tr) \<Longrightarrow> slice_len (buf c) = 0 \<Longrightarrow>
   slice_len (buf c') = 0"
proof (induction ws arbitrary: c c' tr)
  case Nil
  then show ?case by simp
next
  case (Cons w ws)
  obtain o1 c1 tr1 where w1: "writeOnRenderThread (cycle w) c = (o1, c1, tr1)"
    by (cases "writeOnRenderThread (cycle w) c")
  obtain r2 c2 tr2 where l2: "loopOnRenderThread ws c1 = (r2, c2, tr2)"
    by (cases "loopOnRenderThread ws c1")
  from Cons.prems(1) w1 l2 have o1: "o1 = Return None" and r2: "r2 = LoopWaiting"
    and c2: "c2 = c'"
    by (auto split: sum.splits if_splits outcome.splits option.splits)
  from writeOnRenderThread_len [OF w1 [unfolded o1] Cons.prems(2)]
  have "slice_len (buf c1) = 0" .
  from Cons.IH [OF l2 [unfolded r2 c2] this] show ?case .
qed

section \<open>The scratch buffer\<close>

text \<open>
  C7. The capacity of the scratch buffer never shrinks. A fill cycle pulls at most once;
  a cycle that pulls \<open>n\<close> samples allocates, a buffer of exactly \<open>n\<close>, only when
  \<open>n\<close> exceeds the capacity it found, and otherwise keeps the allocation, so the
  capacity after it is the larger of the two; a cycle that does not pull leaves the buffer
  alone. A cycle that returns without error after a pull leaves the length 0, and in the
  render loop, which starts from length 0, the length is 0 after every cycle. The capacity
  is monotone along the render loop, also from any point the loop has reached to any later
  one. With requested sizes 100, 50, 200, 10 the loop allocates twice, 100 and 200, and
  ends with capacity 200.
\<close>

theorem scratch_capacity_monotone:
  "(writeOnRenderThread h c = (r, c', tr) \<longrightarrow>
      slice_cap (buf c) \<le> slice_cap (buf c')
      \<and> length (pulls tr) \<le> 1
      \<and> (pulls tr = [] \<longrightarrow> allocations tr = [] \<and> buf c' = buf c)
      \<and> (\<forall>n. pulls tr = [n] \<longrightarrow>
             allocations tr = (if slice_cap (buf c) < n then [n] else [])
             \<and> slice_cap (buf c') = max (slice_cap (buf c)) n)
      \<and> (r = Return None \<longrightarrow>
             slice_len (buf c') = (if pulls tr = [] then slice_len (buf c) else 0)))
   \<and> (loopOnRenderThread ws c = (lr, c2, ltr) \<longrightarrow> slice_cap (buf c) \<le> slice_cap (buf c2))
   \<and> (loopOnRenderThread ws c = (LoopWaiting, c2, ltr) \<longrightarrow>
        slice_cap (buf c2) \<le> slice_cap (buf (fst (snd (loopOnRenderThread (ws @ ws') c)))))
   \<and> (loopOnRenderThread ws c = (LoopWaiting, c2, ltr) \<and> slice_len (buf c) = 0 \<longrightarrow>
        slice_len (buf c2) = 0)
   \<and> allocations (snd (snd (loopOnRenderThread (map wakeWith [100, 150, 0, 190])
         (startedContext 1 200)))) = [100, 200]
   \<and> pulls (snd (snd (loopOnRenderThread (map wakeWith [100, 150, 0, 190])
         (startedContext 1 200)))) = [100, 50, 200, 10]
   \<and> buf (fst (snd (loopOnRenderThread (map wakeWith [100, 150, 0, 190])
         (startedContext 1 200)))) = \<lparr>slice_len = 0, slice_cap = 200\<rparr>"
proof (intro conjI impI allI)
  assume run: "writeOnRenderThread h c = (r, c', tr)"
  note cases = writeOnRenderThread_scratch [OF run]
  show "slice_cap (buf c) \<le> slice_cap (buf c')"
    by (rule writeOnRenderThread_cap [OF run])
  show "length (pulls tr) \<le> 1"
    using cases by auto
  show "allocations tr = []" if "pulls tr = []"
    using cases that by auto
  show "buf c' = buf c" if "pulls tr = []"
    using cases that by auto
  show "allocations tr = (if slice_cap (buf c) < n then [n] else [])" if "pulls tr = [n]" for n
    using cases that by auto
  show "slice_cap (buf c') = max (slice_cap (buf c)) n" if "pulls tr = [n]" for n
    using cases that by auto
  show "slice_len (buf c') = (if pulls tr = [] then slice_len (buf c) else 0)"
    if "r = Return None"
    using cases that by auto
next
  assume "loopOnRenderThread ws c = (lr, c2, ltr)"
  then show "slice_cap (buf c) \<le> slice_cap (buf c2)"
    by (rule loopOnRenderThread_cap)
next
  assume first: "loopOnRenderThread ws c = (LoopWaiting, c2, ltr)"
  obtain r3 c3 tr3 where rest: "loopOnRenderThread ws' c2 = (r3, c3, tr3)"
    by (cases "loopOnRenderThread ws' c2")
  from loopOnRenderThread_append [OF first rest]
  have "fst (snd (loopOnRenderThread (ws @ ws') c)) = c3" by auto
  moreover have "slice_cap (buf c2) \<le> slice_cap (buf c3)"
    by (rule loopOnRenderThread_cap [OF rest])
  ultimately show "slice_cap (buf c2)
      \<le> slice_cap (buf (fst (snd (loopOnRenderThread (ws @ ws') c))))"
    by simp
next
  assume "loopOnRenderThread ws c = (LoopWaiting, c2, ltr) \<and> slice_len (buf c) = 0"
  then show "slice_len (buf c2) = 0"
    using loopOnRenderThread_len [of ws c c2 ltr] by simp
next
  show "allocations (snd (snd (loopOnRenderThread (map wakeWith [100, 150, 0, 190])
         (startedContext 1 200)))) = [100, 200]"
    by (simp only: peak_loop_eval snd_conv) (simp add: trace_reads)
  show "pulls (snd (snd (loopOnRenderThread (map wakeWith [100, 150, 0, 190])
         (startedContext 1 200)))) = [100, 50, 200, 10]"
    by (simp only: peak_loop_eval snd_conv) (simp add: trace_reads)
  show "buf (fst (snd (loopOnRenderThread (map wakeWith [100, 150, 0, 190])
         (startedContext 1 200)))) = \<lparr>slice_len = 0, slice_cap = 200\<rparr>"
    by (simp only: peak_loop_eval snd_conv fst_conv) simp
qed

theorem scratch_capacity_monotone_witness:
  "slice_cap (buf (startedContext 2 1024))
     \<le> slice_cap (buf (fst (snd (writeOnRenderThread (fillWith 0) (startedContext 2 1024)))))
   \<and> allocations (snd (snd (writeOnRenderThread (fillWith 0) (startedContext 2 1024)))) = [2048]
   \<and> slice_len (buf (fst (snd (writeOnRenderThread (fillWith 0) (startedContext 2 1024))))) = 0
   \<and> slice_cap (buf (fst (snd (loopOnRenderThread (map wakeWith [100, 150])
         (startedContext 1 200)))))
      \<le> slice_cap (buf (fst (snd (loopOnRenderThread (map wakeWith [100, 150] @ map wakeWith [0, 190])
         (startedContext 1 200)))))
   \<and> slice_cap (buf (fst (snd (loopOnRenderThread (map wakeWith [100, 150])
         (startedContext 1 200))))) = 100
   \<and> slice_len (buf (fst (snd (loopOnRenderThread (map wakeWith [100, 150])
         (startedContext 1 200))))) = 0"
proof -
  let ?c = "startedContext 2 1024"
  let ?after = "?c\<lparr>buf := \<lparr>slice_len = 0, slice_cap = 2048\<rparr>\<rparr>"
  let ?tr = "[GetCurrentPadding, GetBuffer 1024, MakeSlice 2048, ReadFloat32s 2048,
       CopyToDevice 6 2048, ReleaseBuffer 1024 0]"
  let ?d = "startedContext 1 200"
  let ?mid = "?d\<lparr>buf := \<lparr>slice_len = 0, slice_cap = 100\<rparr>\<rparr>"
  note inst = scratch_capacity_monotone
    [where h = "fillWith 0" and c = ?c and r = "Return None" and c' = ?after and tr = ?tr]
  note inst2 = scratch_capacity_monotone
    [where ws = "map wakeWith [100, 150]" and c = ?d and ?c2.0 = ?mid
       and ws' = "map wakeWith [0, 190]"
       and ltr = "[WaitForSingleObject 0, GetCurrentPadding, GetBuffer 100,
          MakeSlice 100, ReadFloat32s 100, CopyToDevice 6 100, ReleaseBuffer 100 0,
          WaitForSingleObject 0, GetCurrentPadding, GetBuffer 50, ReadFloat32s 50,
          CopyToDevice 6 50, ReleaseBuffer 50 0, WaitForSingleObject 0]"]
  have p: "pulls ?tr = [2048]" by (simp add: trace_reads)
  have empty: "slice_cap (buf ?c) = 0"
    by (simp add: startedContext_def initialContext_def nilSlice_def)
  from inst stereo_cycle_eval
  have step: "slice_cap (buf ?c) \<le> slice_cap (buf ?after)
      \<and> length (pulls ?tr) \<le> 1
      \<and> (pulls ?tr = [] \<longrightarrow> allocations ?tr = [] \<and> buf ?after = buf ?c)
      \<and> (\<forall>n. pulls ?tr = [n] \<longrightarrow>
             allocations ?tr = (if slice_cap (buf ?c) < n then [n] else [])
             \<and> slice_cap (buf ?after) = max (slice_cap (buf ?c)) n)
      \<and> (Return None = Return None \<longrightarrow>
             slice_len (buf ?after) = (if pulls ?tr = [] then slice_len (buf ?c) else 0))"
    by blast
  then have a: "slice_cap (buf ?c) \<le> slice_cap (buf ?after)"
    and b: "allocations ?tr = (if slice_cap (buf ?c) < 2048 then [2048] else [])"
    and l: "slice_len (buf ?after) = (if pulls ?tr = [] then slice_len (buf ?c) else 0)"
    using p by blast+
  from inst2 peak_prefix_eval
  have m: "slice_cap (buf ?mid)
      \<le> slice_cap (buf (fst (snd (loopOnRenderThread
            (map wakeWith [100, 150] @ map wakeWith [0, 190]) ?d))))"
    by blast
  have fresh: "slice_len (buf ?d) = 0"
    by (simp add: startedContext_def initialContext_def nilSlice_def)
  from inst2 have "loopOnRenderThread (map wakeWith [100, 150]) ?d
      = (LoopWaiting, ?mid, [WaitForSingleObject 0, GetCurrentPadding, GetBuffer 100,
          MakeSlice 100, ReadFloat32s 100, CopyToDevice 6 100, ReleaseBuffer 100 0,
          WaitForSingleObject 0, GetCurrentPadding, GetBuffer 50, ReadFloat32s 50,
          CopyToDevice 6 50, ReleaseBuffer 50 0, WaitForSingleObject 0])
      \<and> slice_len (buf ?d) = 0 \<longrightarrow> slice_len (buf ?mid) = 0"
    by blast
  with peak_prefix_eval fresh have z: "slice_len (buf ?mid) = 0"
    by blast
  have w1: "fst (snd (writeOnRenderThread (fillWith 0) ?c)) = ?after"
    and w2: "snd (snd (writeOnRenderThread (fillWith 0) ?c)) = ?tr"
    by (simp_all only: stereo_cycle_eval fst_conv snd_conv)
  have w3: "fst (snd (loopOnRenderThread (map wakeWith [100, 150]) ?d)) = ?mid"
    by (simp only: peak_prefix_eval fst_conv snd_conv)
  show ?thesis
    unfolding w1 w2 w3
  proof (intro conjI)
    show "slice_cap (buf ?c) \<le> slice_cap (buf ?after)" by (rule a)
    show "allocations ?tr = [2048]" using b empty by simp
    show "slice_len (buf ?after) = 0" using l p by simp
    show "slice_cap (buf ?mid)
      \<le> slice_cap (buf (fst (snd (loopOnRenderThread
            (map wakeWith [100, 150] @ map wakeWith [0, 190]) ?d))))"
      by (rule m)
    show "slice_cap (buf ?mid) = 100" by simp
    show "slice_len (buf ?mid) = 0" by (rule z)
  qed
qed

section \<open>The sizes of a fill cycle\<close>

lemma frames_below_capacity:
  fixes capacity padding :: uint32
  assumes "padding < capacity"
  shows "unat (capacity - padding) = unat capacity - unat padding"
    and "\<not> capacity - padding \<le> 0"
proof -
  from assms have le: "padding \<le> capacity" by simp
  then show eq: "unat (capacity - padding) = unat capacity - unat padding"
    by (rule unat_sub)
  from assms have "unat padding < unat capacity" by (simp add: word_less_nat_alt)
  with eq have "0 < unat (capacity - padding)" by simp
  then show "\<not> capacity - padding \<le> 0"
    by (simp add: word_le_nat_alt)
qed

lemma sint_small:
  fixes w :: go_int
  assumes "uint w < 2 ^ 63"
  shows "sint w = uint w"
proof -
  have "- (2 ^ 63) \<le> (0 :: int)" by simp
  also have "0 \<le> uint w" by simp
  finally have "- (2 ^ 63) \<le> uint w" .
  with assms have "signed_take_bit 63 (uint w) = uint w"
    by (intro signed_take_bit_int_eq_self) simp_all
  then show ?thesis by (simp add: sint_uint)
qed

lemma buflen_supported:
  fixes frames :: uint32 and channels :: go_int
  assumes "channels = 1 \<or> channels = 2"
  shows "sint ((ucast frames :: go_int) * channels) = int (unat frames * unat channels)"
proof -
  have bound: "uint frames < 2 ^ 32"
    using uint_bounded [of frames] by simp
  have up: "uint (ucast frames :: go_int) = uint frames"
    by (simp add: uint_up_ucast is_up)
  from assms show ?thesis
  proof
    assume one: "channels = 1"
    have "sint (ucast frames :: go_int) = uint frames"
      using bound up sint_small [of "ucast frames"] by simp
    with one show ?thesis by simp
  next
    assume two: "channels = 2"
    have "uint ((ucast frames :: go_int) * 2) = (uint frames * 2) mod 2 ^ 64"
      by (simp add: uint_word_ariths up)
    also have "\<dots> = uint frames * 2"
      using bound by simp
    finally have u: "uint ((ucast frames :: go_int) * 2) = uint frames * 2" .
    have "sint ((ucast frames :: go_int) * 2) = uint ((ucast frames :: go_int) * 2)"
      using bound u sint_small [of "ucast frames * 2"] by simp
    with u two show ?thesis by simp
  qed
qed


lemma scratchFor_nonneg:
  assumes "0 \<le> sint n"
  shows "\<exists>b' al. scratchFor b n = Some (b', al)"
  using assms by (simp add: scratchFor_def makeSlice_def reslice_def)

lemma three_cycles_eval:
  "loopOnRenderThread (map wakeWith [0, 512, 1024]) (startedContext 1 1024) =
    (LoopWaiting, (startedContext 1 1024)\<lparr>buf := \<lparr>slice_len = 0, slice_cap = 1024\<rparr>\<rparr>,
  [WaitForSingleObject 0, GetCurrentPadding, GetBuffer 1024, MakeSlice 1024,
   ReadFloat32s 1024, CopyToDevice 6 1024, ReleaseBuffer 1024 0,
   WaitForSingleObject 0, GetCurrentPadding, GetBuffer 512,
   ReadFloat32s 512, CopyToDevice 6 512, ReleaseBuffer 512 0,
   WaitForSingleObject 0, GetCurrentPadding, WaitForSingleObject 0])"
  by (simp add: fill_eval)

lemma mono_cycles_eval:
  "snd (snd (writeOnRenderThread (fillWith 0) (startedContext 1 1024)))
     = [GetCurrentPadding, GetBuffer 1024, MakeSlice 1024, ReadFloat32s 1024,
        CopyToDevice 6 1024, ReleaseBuffer 1024 0]"
  "snd (snd (writeOnRenderThread (fillWith 512) (startedContext 1 1024)))
     = [GetCurrentPadding, GetBuffer 512, MakeSlice 512, ReadFloat32s 512,
        CopyToDevice 6 512, ReleaseBuffer 512 0]"
  "snd (snd (writeOnRenderThread (fillWith 1024) (startedContext 1 1024)))
     = [GetCurrentPadding]"
  by (simp_all add: fill_eval)

lemma half_full_stereo_eval:
  "writeOnRenderThread (fillWith 512) (startedContext 2 1024) =
     (Return None, (startedContext 2 1024)\<lparr>buf := \<lparr>slice_len = 0, slice_cap = 1024\<rparr>\<rparr>,
      [GetCurrentPadding, GetBuffer 512, MakeSlice 1024, ReadFloat32s 1024,
       CopyToDevice 6 1024, ReleaseBuffer 512 0])"
  by (simp add: fill_eval)

text \<open>
  C4. In a fill cycle that reads a padding strictly below the capacity, with one or two
  channels, the write pointer is requested for exactly capacity - padding frames. When
  the request fails the cycle returns its error and neither pulls nor commits; when it
  succeeds the cycle pulls exactly (capacity - padding) * channelCount samples, commits
  exactly capacity - padding frames, and returns what the commit answered. With capacity
  1024, one channel and paddings 0, 512, 1024 the cycles pull 1024, 512 and nothing.
\<close>

theorem fill_cycle_exact_sizes:
  assumes padding: "getCurrentPadding h = Inr padding"
    and below: "padding < bufferFrames c"
    and channels: "channelCount c = 1 \<or> channelCount c = 2"
    and run: "writeOnRenderThread h c = (r, c', tr)"
  shows "unat (bufferFrames c - padding) = unat (bufferFrames c) - unat padding
    \<and> requests tr = [unat (bufferFrames c) - unat padding]
    \<and> (case getBuffer h (bufferFrames c - padding) of
          Inl e \<Rightarrow> r = Return (Some e) \<and> pulls tr = [] \<and> commits tr = []
        | Inr dst \<Rightarrow>
            r = Return (releaseBuffer h (bufferFrames c - padding) 0)
            \<and> pulls tr = [(unat (bufferFrames c) - unat padding) * unat (channelCount c)]
            \<and> commits tr = [unat (bufferFrames c) - unat padding])
    \<and> map (\<lambda>p. sum_list (pulls (snd (snd (writeOnRenderThread (fillWith p)
             (startedContext 1 1024)))))) [0, 512, 1024] = [1024, 512, 0]
    \<and> pulls (snd (snd (loopOnRenderThread (map wakeWith [0, 512, 1024])
             (startedContext 1 1024)))) = [1024, 512]
    \<and> commits (snd (snd (loopOnRenderThread (map wakeWith [0, 512, 1024])
             (startedContext 1 1024)))) = [1024, 512]"
proof (intro conjI)
  let ?frames = "bufferFrames c - padding"
  let ?n = "unat (bufferFrames c) - unat padding"
  note room = frames_below_capacity [OF below]
  show "unat ?frames = ?n" by (rule room(1))
  have general: "requests tr = [?n]
    \<and> (case getBuffer h ?frames of
          Inl e \<Rightarrow> r = Return (Some e) \<and> pulls tr = [] \<and> commits tr = []
        | Inr dst \<Rightarrow>
            r = Return (releaseBuffer h ?frames 0)
            \<and> pulls tr = [?n * unat (channelCount c)]
            \<and> commits tr = [?n])"
  proof (cases "getBuffer h ?frames")
    case (Inl e)
    from run writeOnRenderThread_buffer_error [OF padding room(2) Inl]
    have "r = Return (Some e)" and "tr = [GetCurrentPadding, GetBuffer ?frames]"
      by auto
    with Inl room(1) show ?thesis by (simp add: trace_reads)
  next
    case (Inr dst)
    let ?buflen = "(ucast ?frames :: go_int) * channelCount c"
    have size: "sint ?buflen = int (unat ?frames * unat (channelCount c))"
      by (rule buflen_supported [OF channels])
    then have "0 \<le> sint ?buflen" by simp
    from scratchFor_nonneg [OF this]
    obtain b al where sf: "scratchFor (buf c) ?buflen = Some (b, al)" by blast
    have samples: "nat (sint ?buflen) = unat ?frames * unat (channelCount c)"
      by (simp only: size nat_int)
    from scratchFor_Some [OF sf]
    have "slice_len b = nat (sint ?buflen)"
      and al: "al = [MakeSlice (nat (sint ?buflen))] \<or> al = []"
      by (simp_all only: split: if_splits) simp_all
    with samples have len: "slice_len b = unat ?frames * unat (channelCount c)"
      by (simp only:)
    from al have quiet: "requests al = []" "pulls al = []" "commits al = []"
      by (auto simp: trace_reads)
    from run writeOnRenderThread_filled [OF padding room(2) Inr sf]
    have r: "r = Return (releaseBuffer h ?frames 0)"
      and tr: "tr = [GetCurrentPadding, GetBuffer ?frames] @ al @
         [ReadFloat32s (slice_len b), CopyToDevice dst (nat (sint ?buflen)),
          ReleaseBuffer ?frames 0]"
      by auto
    have "requests tr = [?n]" "pulls tr = [?n * unat (channelCount c)]" "commits tr = [?n]"
      by (simp_all add: tr trace_reads quiet len room(1))
    with Inr r show ?thesis by simp
  qed
  from general show "requests tr = [?n]" by (rule conjunct1)
  from general show "case getBuffer h ?frames of
          Inl e \<Rightarrow> r = Return (Some e) \<and> pulls tr = [] \<and> commits tr = []
        | Inr dst \<Rightarrow>
            r = Return (releaseBuffer h ?frames 0)
            \<and> pulls tr = [?n * unat (channelCount c)]
            \<and> commits tr = [?n]"
    by (rule conjunct2)
  show "map (\<lambda>p. sum_list (pulls (snd (snd (writeOnRenderThread (fillWith p)
             (startedContext 1 1024)))))) [0, 512, 1024] = [1024, 512, 0]"
    by (simp only: list.map mono_cycles_eval) (simp add: trace_reads)
  show "pulls (snd (snd (loopOnRenderThread (map wakeWith [0, 512, 1024])
             (startedContext 1 1024)))) = [1024, 512]"
    by (simp only: three_cycles_eval snd_conv) (simp add: trace_reads)
  show "commits (snd (snd (loopOnRenderThread (map wakeWith [0, 512, 1024])
             (startedContext 1 1024)))) = [1024, 512]"
    by (simp only: three_cycles_eval snd_conv) (simp add: trace_reads)
qed

theorem fill_cycle_exact_sizes_witness:
  "requests (snd (snd (writeOnRenderThread (fillWith 512) (startedContext 2 1024)))) = [512]
   \<and> pulls (snd (snd (writeOnRenderThread (fillWith 512) (startedContext 2 1024)))) = [1024]
   \<and> commits (snd (snd (writeOnRenderThread (fillWith 512) (startedContext 2 1024)))) = [512]
   \<and> fst (writeOnRenderThread (fillWith 512) (startedContext 2 1024)) = Return None"
proof -
  let ?c = "startedContext 2 1024"
  have padding: "getCurrentPadding (fillWith 512) = Inr 512"
    and got: "getBuffer (fillWith 512) (bufferFrames ?c - 512) = Inr 6"
    and released: "releaseBuffer (fillWith 512) (bufferFrames ?c - 512) 0 = None"
    by (simp_all add: fillWith_def)
  have capacity: "bufferFrames ?c = 1024" and stereo: "channelCount ?c = 2"
    by (simp_all add: startedContext_def initialContext_def)
  have below: "(512 :: uint32) < bufferFrames ?c"
    by (simp add: capacity)
  have channels: "channelCount ?c = 1 \<or> channelCount ?c = 2"
    by (simp add: stereo)
  note inst = fill_cycle_exact_sizes [OF padding below channels half_full_stereo_eval]
  from inst have "requests [GetCurrentPadding, GetBuffer 512, MakeSlice 1024,
      ReadFloat32s 1024, CopyToDevice 6 1024, ReleaseBuffer 512 0]
      = [unat (bufferFrames ?c) - unat (512 :: uint32)]"
    by (elim conjE)
  then have a: "requests (snd (snd (writeOnRenderThread (fillWith 512) ?c))) = [512]"
    by (simp add: half_full_stereo_eval capacity)
  from inst got have "Return None = Return (releaseBuffer (fillWith 512) (bufferFrames ?c - 512) 0)
      \<and> pulls [GetCurrentPadding, GetBuffer 512, MakeSlice 1024,
      ReadFloat32s 1024, CopyToDevice 6 1024, ReleaseBuffer 512 0]
        = [(unat (bufferFrames ?c) - unat (512 :: uint32)) * unat (channelCount ?c)]
      \<and> commits [GetCurrentPadding, GetBuffer 512, MakeSlice 1024,
      ReadFloat32s 1024, CopyToDevice 6 1024, ReleaseBuffer 512 0]
        = [unat (bufferFrames ?c) - unat (512 :: uint32)]"
    by (elim conjE) simp
  then have b: "pulls (snd (snd (writeOnRenderThread (fillWith 512) ?c))) = [1024]"
    and d: "commits (snd (snd (writeOnRenderThread (fillWith 512) ?c))) = [512]"
    by (simp_all add: half_full_stereo_eval capacity stereo)
  have e: "fst (writeOnRenderThread (fillWith 512) ?c) = Return None"
    by (simp add: half_full_stereo_eval)
  from a b d e show ?thesis by simp
qed

section \<open>The candidate format\<close>

lemma take_bit_32_uint:
  fixes s :: go_int
  shows "take_bit 32 (uint s) = take_bit 32 (sint s)"
proof -
  have "take_bit 32 (uint s) = take_bit 32 (take_bit 64 (sint s))"
    using uint_sint [of s] by simp
  also have "\<dots> = take_bit 32 (sint s)"
    by simp
  finally show ?thesis .
qed

lemma byte_rate_truncated:
  fixes s b :: go_int
  shows "uint (ucast (s * b) :: uint32) = (sint s * sint b) mod 2 ^ 32"
proof -
  have "uint (ucast (s * b) :: uint32) = take_bit 32 (uint (s * b))"
    by (simp add: unsigned_ucast_eq)
  also have "\<dots> = take_bit 32 (take_bit 64 (uint s * uint b))"
    by (simp only: uint_word_arith_bintrs) simp
  also have "\<dots> = take_bit 32 (uint s * uint b)"
    by simp
  also have "\<dots> = take_bit 32 (take_bit 32 (uint s) * take_bit 32 (uint b))"
    by (simp only: take_bit_mult)
  also have "\<dots> = take_bit 32 (take_bit 32 (sint s) * take_bit 32 (sint b))"
    by (simp only: take_bit_32_uint)
  also have "\<dots> = take_bit 32 (sint s * sint b)"
    by (simp only: take_bit_mult)
  finally show ?thesis by (simp add: take_bit_eq_mod)
qed

lemma blockalign1: "go_div (1 * 32) 8 = 4"
  by (simp add: go_div_def signed_divide_int_def)

lemma blockalign2: "go_div (2 * 32) 8 = 8"
  by (simp add: go_div_def signed_divide_int_def)


lemma flat_rate_eval:
  "candidateFormat sdkConsts (initialContext 1073741824 1 7 9) =
     \<lparr>wFormatTag = 65534, nChannels = 1, nSamplesPerSec = 1073741824,
      nAvgBytesPerSec = 0, nBlockAlign = 4, wBitsPerSample = 32, cbSize = 22,
      Samples = 32, dwChannelMask = 4,
      SubFormat = 0x0000000300000010800000AA00389B71\<rparr>"
  by (simp add: candidateFormat_def initialContext_def sdkConsts_def go_div_def
      signed_divide_int_def Let_def)

text \<open>
  C9, as stated, fails: the byte rate is stored in a \<^verbatim>\<open>uint32\<close>. With one channel and a
  sample rate of 1073741824 the block alignment is 4, the product is 4294967296, and the
  field holds 0.
\<close>

theorem byte_rate_wraps_counterexample:
  "channelCount (initialContext 1073741824 1 7 9) = 1
   \<and> uint (nAvgBytesPerSec (candidateFormat sdkConsts (initialContext 1073741824 1 7 9))) = 0
   \<and> sint (sampleRate (initialContext 1073741824 1 7 9))
       * uint (nBlockAlign (candidateFormat sdkConsts (initialContext 1073741824 1 7 9)))
       = 4294967296
   \<and> uint (nAvgBytesPerSec (candidateFormat sdkConsts (initialContext 1073741824 1 7 9)))
       \<noteq> sint (sampleRate (initialContext 1073741824 1 7 9))
         * uint (nBlockAlign (candidateFormat sdkConsts (initialContext 1073741824 1 7 9)))"
  by (simp only: flat_rate_eval) (simp add: initialContext_def)

text \<open>
  C9, amended. For one or two channels the descriptor is the extensible format with the
  IEEE-float subtype and 32 bits per sample, the channel count, a block alignment of
  channel count * 4, and the mask front-center for one channel, front-left | front-right
  for two. The sample rate and the average byte rate are the sample rate and sample rate *
  block alignment reduced modulo \<open>2 ^ 32\<close>: they are these values themselves whenever
  the sample rate is not negative and sample rate * block alignment is below \<open>2 ^ 32\<close>.
\<close>

theorem candidate_format_formula:
  assumes supported: "channelCount c = 1 \<or> channelCount c = 2"
  shows "wFormatTag (candidateFormat k c) = WAVE_FORMAT_EXTENSIBLE k
    \<and> SubFormat (candidateFormat k c) = KSDATAFORMAT_SUBTYPE_IEEE_FLOAT k
    \<and> wBitsPerSample (candidateFormat k c) = 32
    \<and> Samples (candidateFormat k c) = 32
    \<and> uint (nChannels (candidateFormat k c)) = sint (channelCount c)
    \<and> uint (nBlockAlign (candidateFormat k c)) = sint (channelCount c) * 4
    \<and> uint (nSamplesPerSec (candidateFormat k c)) = sint (sampleRate c) mod 2 ^ 32
    \<and> uint (nAvgBytesPerSec (candidateFormat k c))
        = (sint (sampleRate c) * uint (nBlockAlign (candidateFormat k c))) mod 2 ^ 32
    \<and> (0 \<le> sint (sampleRate c)
        \<and> sint (sampleRate c) * uint (nBlockAlign (candidateFormat k c)) < 2 ^ 32 \<longrightarrow>
          uint (nSamplesPerSec (candidateFormat k c)) = sint (sampleRate c)
          \<and> uint (nAvgBytesPerSec (candidateFormat k c))
              = sint (sampleRate c) * uint (nBlockAlign (candidateFormat k c)))
    \<and> dwChannelMask (candidateFormat k c)
        = (if channelCount c = 1 then SPEAKER_FRONT_CENTER k
           else SPEAKER_FRONT_LEFT k OR SPEAKER_FRONT_RIGHT k)"
proof -
  let ?f = "candidateFormat k c"
  let ?s = "sint (sampleRate c)"
  have rate: "uint (nSamplesPerSec ?f) = ?s mod 2 ^ 32"
  proof -
    have "uint (ucast (sampleRate c) :: uint32) = take_bit 32 (uint (sampleRate c))"
      by (simp add: unsigned_ucast_eq)
    also have "\<dots> = take_bit 32 ?s" by (rule take_bit_32_uint)
    finally show ?thesis by (simp add: candidateFormat_def Let_def take_bit_eq_mod)
  qed
  from supported have align: "go_div (channelCount c * 32) 8 = channelCount c * 4"
    using blockalign1 blockalign2 by auto
  from supported have small: "sint (channelCount c * 4) = sint (channelCount c) * 4"
    and block: "uint (ucast (channelCount c * 4) :: uint16) = sint (channelCount c) * 4"
    and chans: "uint (ucast (channelCount c) :: uint16) = sint (channelCount c)"
    by auto
  have blockAlign: "uint (nBlockAlign ?f) = sint (channelCount c) * 4"
    by (simp add: candidateFormat_def Let_def align block)
  have "uint (nAvgBytesPerSec ?f) = (?s * sint (channelCount c * 4)) mod 2 ^ 32"
    using byte_rate_truncated [of "sampleRate c" "channelCount c * 4"]
    by (simp add: candidateFormat_def Let_def align)
  then have avg: "uint (nAvgBytesPerSec ?f) = (?s * uint (nBlockAlign ?f)) mod 2 ^ 32"
    by (simp only: small blockAlign)
  have exact: "uint (nSamplesPerSec ?f) = ?s
      \<and> uint (nAvgBytesPerSec ?f) = ?s * uint (nBlockAlign ?f)"
    if range: "0 \<le> ?s \<and> ?s * uint (nBlockAlign ?f) < 2 ^ 32"
  proof -
    from range have nonneg: "0 \<le> ?s * uint (nBlockAlign ?f)"
      by simp
    from supported have "1 \<le> uint (nBlockAlign ?f)"
      unfolding blockAlign by auto
    with range have "?s \<le> ?s * uint (nBlockAlign ?f)"
      by (simp add: mult_le_cancel_left1)
    with range have "?s < 2 ^ 32" by linarith
    with range rate have "uint (nSamplesPerSec ?f) = ?s" by simp
    moreover from range nonneg avg have "uint (nAvgBytesPerSec ?f) = ?s * uint (nBlockAlign ?f)"
      by simp
    ultimately show ?thesis by simp
  qed
  have mask: "dwChannelMask ?f = (if channelCount c = 1 then SPEAKER_FRONT_CENTER k
           else SPEAKER_FRONT_LEFT k OR SPEAKER_FRONT_RIGHT k)"
    using supported by (auto simp: candidateFormat_def Let_def)
  have fixed: "wFormatTag ?f = WAVE_FORMAT_EXTENSIBLE k"
    "SubFormat ?f = KSDATAFORMAT_SUBTYPE_IEEE_FLOAT k"
    "wBitsPerSample ?f = 32" "Samples ?f = 32"
    by (simp_all add: candidateFormat_def Let_def)
  have channels: "uint (nChannels ?f) = sint (channelCount c)"
    by (simp add: candidateFormat_def Let_def chans)
  from fixed channels blockAlign rate avg exact mask show ?thesis
    by blast
qed

theorem candidate_format_formula_witness:
  "uint (nBlockAlign (candidateFormat sdkConsts (initialContext 48000 2 7 9))) = 8
   \<and> uint (nSamplesPerSec (candidateFormat sdkConsts (initialContext 48000 2 7 9))) = 48000
   \<and> uint (nAvgBytesPerSec (candidateFormat sdkConsts (initialContext 48000 2 7 9))) = 384000
   \<and> dwChannelMask (candidateFormat sdkConsts (initialContext 48000 2 7 9)) = 3"
proof -
  let ?c = "initialContext 48000 2 7 9"
  let ?f = "candidateFormat sdkConsts ?c"
  have cc: "channelCount ?c = 2" and sr: "sampleRate ?c = 48000"
    by (simp_all add: initialContext_def)
  have supported: "channelCount ?c = 1 \<or> channelCount ?c = 2"
    by (simp add: cc)
  note inst = candidate_format_formula [OF supported, of sdkConsts]
  from inst have block: "uint (nBlockAlign ?f) = sint (channelCount ?c) * 4"
    by (elim conjE)
  then have b8: "uint (nBlockAlign ?f) = 8" by (simp add: cc)
  have range: "0 \<le> sint (sampleRate ?c)
      \<and> sint (sampleRate ?c) * uint (nBlockAlign ?f) < 2 ^ 32"
    by (simp add: b8 sr)
  from inst have "0 \<le> sint (sampleRate ?c)
        \<and> sint (sampleRate ?c) * uint (nBlockAlign ?f) < 2 ^ 32 \<longrightarrow>
          uint (nSamplesPerSec ?f) = sint (sampleRate ?c)
          \<and> uint (nAvgBytesPerSec ?f) = sint (sampleRate ?c) * uint (nBlockAlign ?f)"
    by (elim conjE)
  with range have "uint (nSamplesPerSec ?f) = sint (sampleRate ?c)"
    and "uint (nAvgBytesPerSec ?f) = sint (sampleRate ?c) * uint (nBlockAlign ?f)"
    by blast+
  then have rates: "uint (nSamplesPerSec ?f) = 48000" "uint (nAvgBytesPerSec ?f) = 384000"
    by (simp_all add: b8 sr)
  from inst have "dwChannelMask ?f
        = (if channelCount ?c = 1 then SPEAKER_FRONT_CENTER sdkConsts
           else SPEAKER_FRONT_LEFT sdkConsts OR SPEAKER_FRONT_RIGHT sdkConsts)"
    by (elim conjE)
  then have mask: "dwChannelMask ?f = 3"
    by (simp add: cc sdkConsts_def)
  from b8 rates mask show ?thesis by simp
qed

section \<open>A closest format ends the setup\<close>

lemma candidateFormat_client:
  "candidateFormat k (c\<lparr>client := x\<rparr>) = candidateFormat k c"
  by (simp add: candidateFormat_def)

lemma initWithDevice_offered:
  assumes offered: "isFormatSupported p (candidateFormat k c) = Inr (Some closest)"
    and run: "initWithDevice k p c = (r, c', tr)"
  shows "r \<noteq> None \<and> mixFormat c' = mixFormat c
    \<and> set tr \<subseteq> {Activate, SetClientProperties, IsFormatSupported (candidateFormat k c)}
    \<and> (IsFormatSupported (candidateFormat k c) \<in> set tr \<longrightarrow> r = Some ErrClosestFormat)"
proof (cases "activate p")
  case (Inl e)
  with run show ?thesis by (auto simp: initWithDevice_def)
next
  case (Inr cl)
  show ?thesis
  proof (cases "setClientProperties p")
    case (Some e)
    with run Inr have "r = Some e" and "c' = c\<lparr>client := Some cl\<rparr>"
      and "tr = [Activate, SetClientProperties]"
      by (simp_all add: initWithDevice_def Let_def)
    then show ?thesis by simp
  next
    case None
    with run Inr offered show ?thesis
      by (auto simp: initWithDevice_def Let_def candidateFormat_client)
  qed
qed

lemma initWithEnumerator_offered:
  assumes offered: "isFormatSupported p (candidateFormat k c) = Inr (Some closest)"
    and run: "initWithEnumerator k p c = (r, c', tr)"
  shows "r \<noteq> None \<and> mixFormat c' = mixFormat c
    \<and> set tr \<subseteq> {GetDefaultAudioEndPoint, Activate, SetClientProperties,
          IsFormatSupported (candidateFormat k c), DeviceRelease}
    \<and> (IsFormatSupported (candidateFormat k c) \<in> set tr \<longrightarrow> r = Some ErrClosestFormat)"
proof (cases "getDefaultAudioEndPoint p")
  case (Inl e)
  with run show ?thesis by (auto simp: initWithEnumerator_def)
next
  case (Inr device)
  obtain r1 c1 tr1 where inner: "initWithDevice k p c = (r1, c1, tr1)"
    by (cases "initWithDevice k p c")
  from run Inr inner have "r = r1" "c' = c1" "tr = GetDefaultAudioEndPoint # tr1 @ [DeviceRelease]"
    by (auto simp: initWithEnumerator_def)
  with initWithDevice_offered [OF offered inner] show ?thesis by auto
qed

lemma initOnCOMThread_offered:
  assumes offered: "isFormatSupported p (candidateFormat k c) = Inr (Some closest)"
    and run: "initOnCOMThread k p c = (r, c', tr)"
  shows "r \<noteq> None \<and> mixFormat c' = mixFormat c
    \<and> set tr \<subseteq> {CoCreateInstance, GetDefaultAudioEndPoint, Activate, SetClientProperties,
          IsFormatSupported (candidateFormat k c), DeviceRelease, EnumeratorRelease}
    \<and> (IsFormatSupported (candidateFormat k c) \<in> set tr \<longrightarrow> r = Some ErrClosestFormat)"
proof (cases "coCreateInstance p")
  case (Inl e)
  with run show ?thesis by (auto simp: initOnCOMThread_def)
next
  case (Inr enumerator)
  obtain r1 c1 tr1 where inner: "initWithEnumerator k p c = (r1, c1, tr1)"
    by (cases "initWithEnumerator k p c")
  from run Inr inner
  have "r = r1" "c' = c1" "tr = CoCreateInstance # tr1 @ [EnumeratorRelease]"
    by (auto simp: initOnCOMThread_def)
  with initWithEnumerator_offered [OF offered inner] show ?thesis by auto
qed

lemma newWASAPIContext_init_error:
  assumes "initOnCOMThread k (plat env) (initialContext sr cc m (funcChan env)) = (r, c', tr)"
    and "r \<noteq> None"
  shows "isl (fst (newWASAPIContext k env sr cc m))"
  using assms
  by (cases "comInit env")
     (auto simp: newWASAPIContext_def newCOMThread_def comThreadGoroutine_def chanReceive_def
        Let_def)

lemma offered_eval:
  "initOnCOMThread sdkConsts offeringPlatform (initialContext 48000 2 7 9) =
     (Some ErrClosestFormat, (initialContext 48000 2 7 9)\<lparr>client := Some 3\<rparr>,
      [CoCreateInstance, GetDefaultAudioEndPoint, Activate, SetClientProperties,
       IsFormatSupported (candidateFormat sdkConsts (initialContext 48000 2 7 9)),
       DeviceRelease, EnumeratorRelease])"
  by (simp add: setup_eval)

text \<open>
  C5. When the format-support query answers the candidate format with a closest
  alternative, \<^verbatim>\<open>initOnCOMThread\<close> returns an error, which is the format error whenever
  the query was reached; the mix format of the context is the one it had, so the
  alternative is not accepted; the calls made are among enumerator creation, endpoint
  lookup, activation, property setting, the query and the two releases, so the client is
  neither initialized nor started and no render thread is launched; and construction
  fails.
\<close>

theorem closest_format_fails_setup:
  assumes offered: "isFormatSupported p (candidateFormat k c) = Inr (Some closest)"
    and run: "initOnCOMThread k p c = (r, c', tr)"
  shows "r \<noteq> None
    \<and> mixFormat c' = mixFormat c
    \<and> set tr \<subseteq> {CoCreateInstance, GetDefaultAudioEndPoint, Activate, SetClientProperties,
          IsFormatSupported (candidateFormat k c), DeviceRelease, EnumeratorRelease}
    \<and> (\<forall>f. Initialize f \<notin> set tr) \<and> Start \<notin> set tr \<and> GoRenderThread \<notin> set tr
    \<and> (IsFormatSupported (candidateFormat k c) \<in> set tr \<longrightarrow> r = Some ErrClosestFormat)
    \<and> (plat env = p \<and> c = initialContext sr cc m (funcChan env) \<longrightarrow>
          isl (fst (newWASAPIContext k env sr cc m)))"
proof -
  note core = initOnCOMThread_offered [OF offered run]
  from core have failed: "r \<noteq> None" and kept: "mixFormat c' = mixFormat c"
    and calls: "set tr \<subseteq> {CoCreateInstance, GetDefaultAudioEndPoint, Activate,
          SetClientProperties, IsFormatSupported (candidateFormat k c), DeviceRelease,
          EnumeratorRelease}"
    and why: "IsFormatSupported (candidateFormat k c) \<in> set tr \<longrightarrow> r = Some ErrClosestFormat"
    by blast+
  from calls have none: "\<forall>f. Initialize f \<notin> set tr" "Start \<notin> set tr" "GoRenderThread \<notin> set tr"
    by auto
  have built: "isl (fst (newWASAPIContext k env sr cc m))"
    if "plat env = p \<and> c = initialContext sr cc m (funcChan env)"
    using that run failed newWASAPIContext_init_error [of k env sr cc m r c' tr] by simp
  from failed kept calls none why built show ?thesis by blast
qed

theorem closest_format_fails_setup_witness:
  "fst (initOnCOMThread sdkConsts offeringPlatform (initialContext 48000 2 7 9))
      = Some ErrClosestFormat
   \<and> mixFormat (fst (snd (initOnCOMThread sdkConsts offeringPlatform
        (initialContext 48000 2 7 9)))) = None
   \<and> Start \<notin> set (snd (snd (initOnCOMThread sdkConsts offeringPlatform
        (initialContext 48000 2 7 9))))
   \<and> isl (fst (newWASAPIContext sdkConsts (acceptingSetup\<lparr>plat := offeringPlatform\<rparr>) 48000 2 7))"
proof -
  let ?c = "initialContext 48000 2 7 9"
  let ?f = "candidateFormat sdkConsts ?c"
  let ?env = "acceptingSetup\<lparr>plat := offeringPlatform\<rparr>"
  let ?tr = "[CoCreateInstance, GetDefaultAudioEndPoint, Activate, SetClientProperties,
       IsFormatSupported ?f, DeviceRelease, EnumeratorRelease]"
  have offered: "isFormatSupported offeringPlatform ?f = Inr (Some (?f\<lparr>nSamplesPerSec := 48000\<rparr>))"
    by (simp add: offeringPlatform_def)
  note inst = closest_format_fails_setup [OF offered offered_eval,
      where env = ?env and sr = 48000 and cc = 2 and m = 7]
  have here: "plat ?env = offeringPlatform \<and> ?c = initialContext 48000 2 7 (funcChan ?env)"
    by (simp add: acceptingSetup_def)
  have asked: "IsFormatSupported ?f \<in> set ?tr" by simp
  from inst have "IsFormatSupported ?f \<in> set ?tr \<longrightarrow> Some ErrClosestFormat = Some ErrClosestFormat"
    and kept: "mixFormat (?c\<lparr>client := Some 3\<rparr>) = mixFormat ?c"
    and quiet: "Start \<notin> set ?tr"
    and built: "plat ?env = offeringPlatform \<and> ?c = initialContext 48000 2 7 (funcChan ?env) \<longrightarrow>
          isl (fst (newWASAPIContext sdkConsts ?env 48000 2 7))"
    by blast+
  have a: "fst (initOnCOMThread sdkConsts offeringPlatform ?c) = Some ErrClosestFormat"
    by (simp only: offered_eval fst_conv)
  have b: "mixFormat (fst (snd (initOnCOMThread sdkConsts offeringPlatform ?c))) = None"
    using kept by (simp only: offered_eval fst_conv snd_conv) (simp add: initialContext_def)
  have d: "Start \<notin> set (snd (snd (initOnCOMThread sdkConsts offeringPlatform ?c)))"
    unfolding offered_eval snd_conv by (rule quiet)
  from built here have e: "isl (fst (newWASAPIContext sdkConsts ?env 48000 2 7))"
    by blast
  from a b d e show ?thesis by blast
qed

section \<open>Channel counts other than one and two\<close>

lemma not_isl_Inr: "\<not> isl x \<Longrightarrow> \<exists>v. x = Inr v"
  by (cases x) simp_all

lemma initClient_accepted:
  assumes "initialize p f = None" "getBufferSize p = Inr frames" "getService p = Inr rc"
    "createEventEx p = Inr ev" "setEventHandle p ev = None" "start p = None"
  shows "initClient p c f =
    (None, c\<lparr>bufferFrames := frames, renderClient := Some rc, sampleReadyEvent := ev\<rparr>,
     [Initialize f, GetBufferSize, GetService, CreateEventEx, SetEventHandle ev, Start,
      GoRenderThread])"
  using assms by (simp add: initClient_def)

lemma initWithDevice_accepted:
  assumes "activate p = Inr cl" "setClientProperties p = None"
    "isFormatSupported p (candidateFormat k c) = Inr None"
    "initialize p (candidateFormat k c) = None" "getBufferSize p = Inr frames"
    "getService p = Inr rc" "createEventEx p = Inr ev" "setEventHandle p ev = None"
    "start p = None"
  shows "initWithDevice k p c =
    (None, c\<lparr>client := Some cl, mixFormat := Some (candidateFormat k c),
              bufferFrames := frames, renderClient := Some rc, sampleReadyEvent := ev\<rparr>,
     [Activate, SetClientProperties, IsFormatSupported (candidateFormat k c),
      Initialize (candidateFormat k c), GetBufferSize, GetService, CreateEventEx,
      SetEventHandle ev, Start, GoRenderThread])"
  using assms
  by (simp add: initWithDevice_def Let_def candidateFormat_client initClient_accepted)

lemma initOnCOMThread_accepted:
  assumes "accepts p (candidateFormat k c)"
  shows "\<exists>c'. initOnCOMThread k p c =
    (None, c',
     [CoCreateInstance, GetDefaultAudioEndPoint, Activate, SetClientProperties,
      IsFormatSupported (candidateFormat k c), Initialize (candidateFormat k c),
      GetBufferSize, GetService, CreateEventEx, SetEventHandle (projr (createEventEx p)),
      Start, GoRenderThread, DeviceRelease, EnumeratorRelease])
    \<and> mixFormat c' = Some (candidateFormat k c) \<and> channelCount c' = channelCount c"
proof -
  from assms obtain en dev cl frames rc ev where
    answers: "coCreateInstance p = Inr en" "getDefaultAudioEndPoint p = Inr dev"
      "activate p = Inr cl" "getBufferSize p = Inr frames" "getService p = Inr rc"
      "createEventEx p = Inr ev"
    unfolding accepts_def by (metis not_isl_Inr)
  from assms answers have rest: "setClientProperties p = None"
    "isFormatSupported p (candidateFormat k c) = Inr None"
    "initialize p (candidateFormat k c) = None" "setEventHandle p ev = None" "start p = None"
    by (simp_all add: accepts_def)
  note inner = initWithDevice_accepted [OF answers(3) rest(1,2,3) answers(4,5,6) rest(4,5)]
  show ?thesis
    by (simp add: initOnCOMThread_def initWithEnumerator_def answers inner)
qed

lemma init_first_call:
  "\<exists>tr. snd (snd (initOnCOMThread k p c)) = CoCreateInstance # tr"
  by (cases "coCreateInstance p"; cases "initWithEnumerator k p c")
     (simp_all add: initOnCOMThread_def)

lemma newWASAPIContext_worker_ok:
  assumes "comInit env = None"
    and "initOnCOMThread k (plat env) (initialContext sr cc m (funcChan env)) = (r, c', tr)"
  shows "newWASAPIContext k env sr cc m
    = ((case r of Some e \<Rightarrow> Inl e | None \<Rightarrow> Inr c'), InJobLoop, CoInitializeEx # tr)"
  using assms
  by (simp add: newWASAPIContext_def newCOMThread_def comThreadGoroutine_def chanReceive_def
      Let_def split: option.splits)

lemma newWASAPIContext_worker_failed:
  assumes "comInit env = Some e"
  shows "newWASAPIContext k env sr cc m = (Inl e, InJobLoop, [CoInitializeEx])"
  using assms
  by (simp add: newWASAPIContext_def newCOMThread_def comThreadGoroutine_def chanReceive_def)

lemma three_channels_eval:
  "newWASAPIContext sdkConsts acceptingSetup 48000 3 7 =
     (Inr ((initialContext 48000 3 7 9)
             \<lparr>sampleReadyEvent := 5, client := Some 3,
              mixFormat := Some (candidateFormat sdkConsts (initialContext 48000 3 7 9)),
              bufferFrames := 1024, renderClient := Some 4\<rparr>),
      InJobLoop,
      [CoInitializeEx, CoCreateInstance, GetDefaultAudioEndPoint, Activate, SetClientProperties,
       IsFormatSupported (candidateFormat sdkConsts (initialContext 48000 3 7 9)),
       Initialize (candidateFormat sdkConsts (initialContext 48000 3 7 9)),
       GetBufferSize, GetService, CreateEventEx, SetEventHandle 5, Start, GoRenderThread,
       DeviceRelease, EnumeratorRelease])"
  by (simp add: setup_eval)

text \<open>
  C1, as stated, fails: with three channels, on a platform that accepts, construction
  succeeds after activation, the format query, initialization and start, and the
  descriptor it negotiated has channel mask 0.
\<close>

theorem three_channels_accepted_counterexample:
  "\<not> isl (fst (newWASAPIContext sdkConsts acceptingSetup 48000 3 7))
   \<and> snd (snd (newWASAPIContext sdkConsts acceptingSetup 48000 3 7)) =
      [CoInitializeEx, CoCreateInstance, GetDefaultAudioEndPoint, Activate, SetClientProperties,
       IsFormatSupported (candidateFormat sdkConsts (initialContext 48000 3 7 9)),
       Initialize (candidateFormat sdkConsts (initialContext 48000 3 7 9)),
       GetBufferSize, GetService, CreateEventEx, SetEventHandle 5, Start, GoRenderThread,
       DeviceRelease, EnumeratorRelease]
   \<and> dwChannelMask (candidateFormat sdkConsts (initialContext 48000 3 7 9)) = 0"
  by (simp only: three_channels_eval fst_conv snd_conv)
     (simp add: candidateFormat_def initialContext_def Let_def)

text \<open>
  C1, amended. The driver does not validate the channel count. For a count other than 1
  and 2 the candidate descriptor has channel mask 0; the apartment setup of the worker is
  called first whatever the count, and the enumerator creation follows when it succeeds;
  whether construction fails is decided by the platform: on one that accepts the
  descriptor, construction succeeds with that count and that descriptor as mix format,
  after all the calls of the setup.
\<close>

theorem channel_count_left_to_platform:
  assumes other: "cc \<noteq> 1" "cc \<noteq> 2"
  shows "dwChannelMask (candidateFormat k (initialContext sr cc m t)) = 0
    \<and> take 1 (snd (snd (newWASAPIContext k env sr cc m))) = [CoInitializeEx]
    \<and> (comInit env = None \<longrightarrow>
         take 2 (snd (snd (newWASAPIContext k env sr cc m))) = [CoInitializeEx, CoCreateInstance])
    \<and> (comInit env = None
        \<and> accepts (plat env) (candidateFormat k (initialContext sr cc m (funcChan env))) \<longrightarrow>
         \<not> isl (fst (newWASAPIContext k env sr cc m))
         \<and> channelCount (projr (fst (newWASAPIContext k env sr cc m))) = cc
         \<and> mixFormat (projr (fst (newWASAPIContext k env sr cc m)))
             = Some (candidateFormat k (initialContext sr cc m (funcChan env)))
         \<and> snd (snd (newWASAPIContext k env sr cc m)) =
             [CoInitializeEx, CoCreateInstance, GetDefaultAudioEndPoint, Activate,
              SetClientProperties,
              IsFormatSupported (candidateFormat k (initialContext sr cc m (funcChan env))),
              Initialize (candidateFormat k (initialContext sr cc m (funcChan env))),
              GetBufferSize, GetService, CreateEventEx,
              SetEventHandle (projr (createEventEx (plat env))), Start, GoRenderThread,
              DeviceRelease, EnumeratorRelease])"
proof (intro conjI impI)
  let ?c = "initialContext sr cc m (funcChan env)"
  let ?run = "newWASAPIContext k env sr cc m"
  show "dwChannelMask (candidateFormat k (initialContext sr cc m t)) = 0"
    using other by (simp add: candidateFormat_def initialContext_def Let_def)
  obtain r c' tr where init: "initOnCOMThread k (plat env) ?c = (r, c', tr)"
    by (cases "initOnCOMThread k (plat env) ?c")
  from init_first_call [of k "plat env" ?c] init
  obtain tr' where first: "tr = CoCreateInstance # tr'" by auto
  show "take 1 (snd (snd ?run)) = [CoInitializeEx]"
  proof (cases "comInit env")
    case None
    from newWASAPIContext_worker_ok [OF None init] show ?thesis by simp
  next
    case (Some e)
    from newWASAPIContext_worker_failed [OF Some] show ?thesis by simp
  qed
  show "take 2 (snd (snd ?run)) = [CoInitializeEx, CoCreateInstance]" if "comInit env = None"
    using newWASAPIContext_worker_ok [OF that init] first by simp
  assume ok: "comInit env = None \<and> accepts (plat env) (candidateFormat k ?c)"
  then have worker: "comInit env = None" and acc: "accepts (plat env) (candidateFormat k ?c)"
    by simp_all
  from initOnCOMThread_accepted [OF acc] init
  have r: "r = None" and mix: "mixFormat c' = Some (candidateFormat k ?c)"
    and chans: "channelCount c' = channelCount ?c"
    and tr: "tr = [CoCreateInstance, GetDefaultAudioEndPoint, Activate, SetClientProperties,
      IsFormatSupported (candidateFormat k ?c), Initialize (candidateFormat k ?c),
      GetBufferSize, GetService, CreateEventEx, SetEventHandle (projr (createEventEx (plat env))),
      Start, GoRenderThread, DeviceRelease, EnumeratorRelease]"
    by auto
  from newWASAPIContext_worker_ok [OF worker init] r
  have whole: "?run = (Inr c', InJobLoop, CoInitializeEx # tr)" by simp
  show "\<not> isl (fst ?run)" by (simp add: whole)
  show "channelCount (projr (fst ?run)) = cc"
    by (simp add: whole chans initialContext_def)
  show "mixFormat (projr (fst ?run)) = Some (candidateFormat k ?c)"
    by (simp add: whole mix)
  show "snd (snd ?run) =
             [CoInitializeEx, CoCreateInstance, GetDefaultAudioEndPoint, Activate,
              SetClientProperties,
              IsFormatSupported (candidateFormat k ?c),
              Initialize (candidateFormat k ?c),
              GetBufferSize, GetService, CreateEventEx,
              SetEventHandle (projr (createEventEx (plat env))), Start, GoRenderThread,
              DeviceRelease, EnumeratorRelease]"
    by (simp add: whole tr)
qed

theorem channel_count_left_to_platform_witness:
  "dwChannelMask (candidateFormat sdkConsts (initialContext 44100 6 7 9)) = 0
   \<and> \<not> isl (fst (newWASAPIContext sdkConsts acceptingSetup 44100 6 7))
   \<and> channelCount (projr (fst (newWASAPIContext sdkConsts acceptingSetup 44100 6 7))) = 6
   \<and> take 2 (snd (snd (newWASAPIContext sdkConsts acceptingSetup 44100 6 7)))
       = [CoInitializeEx, CoCreateInstance]"
proof -
  have other: "(6 :: go_int) \<noteq> 1" "(6 :: go_int) \<noteq> 2" by simp_all
  note inst = channel_count_left_to_platform [OF other,
      where k = sdkConsts and sr = 44100 and m = 7 and t = 9 and env = acceptingSetup]
  have worker: "comInit acceptingSetup = None"
    by (simp add: acceptingSetup_def)
  have acc: "accepts (plat acceptingSetup)
      (candidateFormat sdkConsts (initialContext 44100 6 7 (funcChan acceptingSetup)))"
    by (simp add: accepts_def acceptingSetup_def acceptingPlatform_def)
  from inst have a: "dwChannelMask (candidateFormat sdkConsts (initialContext 44100 6 7 9)) = 0"
    by (elim conjE)
  from inst worker
  have b: "take 2 (snd (snd (newWASAPIContext sdkConsts acceptingSetup 44100 6 7)))
       = [CoInitializeEx, CoCreateInstance]"
    by blast
  from inst worker acc
  have "\<not> isl (fst (newWASAPIContext sdkConsts acceptingSetup 44100 6 7))"
    and "channelCount (projr (fst (newWASAPIContext sdkConsts acceptingSetup 44100 6 7))) = 6"
    by blast+
  with a b show ?thesis by blast
qed

end
